theory Spec2Isabelle
  imports Complex_Main "HOL-Library.Word"
begin

unbundle bit_operations_syntax

section \<open>Constants of motor.py and motor_safe.py\<close>

text \<open>
  Both modules start with the same constants. Statuswords and controlwords are the
  unsigned 16-bit fields of the PDO frames (\<^verbatim>\<open>struct "<H"\<close>), the actual position is the
  signed 32-bit field (\<^verbatim>\<open>struct "<i"\<close>). Python integers are unbounded and are modelled
  as \<^typ>\<open>int\<close>. Python floats are modelled as \<^typ>\<open>real\<close>: every float operation is
  taken as the exact operation, the rounding of IEEE doubles is not part of the model.
\<close>

definition CW_SHUTDOWN :: "16 word" where "CW_SHUTDOWN = 0x0006"
definition CW_SWITCH_ON :: "16 word" where "CW_SWITCH_ON = 0x0007"
definition CW_ENABLE_OPERATION :: "16 word" where "CW_ENABLE_OPERATION = 0x000F"
definition CW_DISABLE_VOLTAGE :: "16 word" where "CW_DISABLE_VOLTAGE = 0x0000"
definition CW_FAULT_RESET :: "16 word" where "CW_FAULT_RESET = 0x0080"

definition PULSES_PER_REVOLUTION :: int where "PULSES_PER_REVOLUTION = 8388608"
definition x_axis_mm_per_rev :: real where "x_axis_mm_per_rev = 119993131404 / 10000000000"
definition z_axis_mm_per_rev :: real where "z_axis_mm_per_rev = 599965657019 / 100000000000"

section \<open>Python primitives\<close>

datatype py_error = IndexError | StructError | ValueError | ZeroDivisionError

text \<open>\<^verbatim>\<open>int(x)\<close> on a float truncates towards zero.\<close>

definition py_int :: "real \<Rightarrow> int" where
  "py_int x = (if 0 \<le> x then \<lfloor>x\<rfloor> else \<lceil>x\<rceil>)"

text \<open>\<^verbatim>\<open>xs[i]\<close>: a negative index counts from the end, anything else out of range raises.\<close>

definition py_index :: "nat \<Rightarrow> int \<Rightarrow> py_error + nat" where
  "py_index n i =
     (if 0 \<le> i \<and> i < int n then Inr (nat i)
      else if i < 0 \<and> - int n \<le> i then Inr (nat (int n + i))
      else Inl IndexError)"

section \<open>Drive state machine: statusword to controlword\<close>

text \<open>
  The \<^verbatim>\<open>if/elif\<close> chain of step 4 of \<^verbatim>\<open>_ethercat_process_loop\<close> and of
  \<^verbatim>\<open>_ethercat_process_loop_safe\<close> (the two chains are the same text).
\<close>

definition controlword :: "16 word \<Rightarrow> 16 word" where
  "controlword status =
     (if status AND 0x004F = 0x0040 then CW_SHUTDOWN
      else if status AND 0x006F = 0x0021 then CW_SWITCH_ON
      else if status AND 0x006F = 0x0023 then CW_ENABLE_OPERATION
      else if status AND 0x006F = 0x0027 then CW_ENABLE_OPERATION
      else if status AND 0x0008 \<noteq> 0 then CW_FAULT_RESET
      else CW_ENABLE_OPERATION)"

text \<open>
  The table of section 4.2 of the specification, read row by row and without an order
  among the rows: \<open>spec_row sw cw\<close> holds when some row of the table matches \<open>sw\<close> and
  names \<open>cw\<close>; the last row ("otherwise") applies when no other row matches.
\<close>

definition spec_row_matches :: "16 word \<Rightarrow> bool" where
  "spec_row_matches sw \<longleftrightarrow>
     sw AND 0x004F = 0x0040 \<or> sw AND 0x006F = 0x0021 \<or> sw AND 0x006F = 0x0023
     \<or> sw AND 0x006F = 0x0027 \<or> sw AND 0x0008 \<noteq> 0"

definition spec_row :: "16 word \<Rightarrow> 16 word \<Rightarrow> bool" where
  "spec_row sw cw \<longleftrightarrow>
     (sw AND 0x004F = 0x0040 \<and> cw = 0x0006)
     \<or> (sw AND 0x006F = 0x0021 \<and> cw = 0x0007)
     \<or> (sw AND 0x006F = 0x0023 \<and> cw = 0x000F)
     \<or> (sw AND 0x006F = 0x0027 \<and> cw = 0x000F)
     \<or> (sw AND 0x0008 \<noteq> 0 \<and> cw = 0x0080)
     \<or> (\<not> spec_row_matches sw \<and> cw = 0x000F)"

section \<open>Unit conversion\<close>

text \<open>
  \<^verbatim>\<open>mm_per_rev = x_axis_mm_per_rev if state['axis'] == 'x' else z_axis_mm_per_rev\<close>:
  the axis tag is a Python string, every tag other than \<^verbatim>\<open>'x'\<close> selects the Z constant.
\<close>

definition mm_per_rev :: "string \<Rightarrow> real" where
  "mm_per_rev ax = (if ax = ''x'' then x_axis_mm_per_rev else z_axis_mm_per_rev)"

text \<open>
  The target computation of a \<^verbatim>\<open>MOVE_TO_MM\<close> command (motor.py lines 247-255,
  motor_safe.py lines 237-240).
\<close>

definition target_pulse_relative :: "string \<Rightarrow> real \<Rightarrow> int" where
  "target_pulse_relative ax target_mm =
     (let revolutions = target_mm / mm_per_rev ax
      in py_int (revolutions * real_of_int PULSES_PER_REVOLUTION * 2))"

definition target_pulse_absolute :: "string \<Rightarrow> int \<Rightarrow> real \<Rightarrow> int" where
  "target_pulse_absolute ax off target_mm = target_pulse_relative ax target_mm + off"

text \<open>
  \<^verbatim>\<open>Motor.current_position_mm\<close> and \<^verbatim>\<open>MotorSafe.current_position_mm\<close>: the two
  arguments are the position and offset slots of the shared state block (an array of
  doubles), the axis tag is the client-side \<^verbatim>\<open>self._axis\<close>.
\<close>

definition current_position_mm :: "string \<Rightarrow> real \<Rightarrow> real \<Rightarrow> real" where
  "current_position_mm ax current_pos off =
     (let relative_pos = current_pos - off;
          revolutions = relative_pos / real_of_int (PULSES_PER_REVOLUTION * 2)
      in revolutions * mm_per_rev ax)"


text \<open>
  \<^verbatim>\<open>EtherCATBusSafe.__init__\<close>: the sync-error threshold in pulses, from millimetres with
  the Z-axis constant.
\<close>

definition max_sync_error_pulse :: "real \<Rightarrow> int" where
  "max_sync_error_pulse max_sync_error_mm =
     py_int ((max_sync_error_mm / z_axis_mm_per_rev) * real_of_int PULSES_PER_REVOLUTION * 2)"

section \<open>Data model of the control loop\<close>

text \<open>
  One entry of \<^verbatim>\<open>local_motor_states\<close>. The dictionary keys are the record fields; the
  key \<^verbatim>\<open>'mode'\<close> is never read and is left out, \<^verbatim>\<open>'last_status'\<close> is absent until
  the first control step (\<open>None\<close>). A trajectory is the dictionary
  \<^verbatim>\<open>{'start', 'end', 'duration', 'start_time'}\<close>.
\<close>

record traj =
  t_start :: int
  t_end :: int
  t_duration :: real
  t_start_time :: real

record motor_state =
  target_pulse :: int
  offset :: int
  axis :: string
  trajectory :: "traj option"
  last_status :: "16 word option"

text \<open>
  The six input bytes of a slave (TxPDO), already split into the statusword and the
  position actual value; \<^verbatim>\<open>_read_status_word\<close> and \<^verbatim>\<open>_read_actual_position\<close> unpack
  them as unsigned 16-bit and signed 32-bit little-endian integers.
\<close>

record slave_input =
  statusword :: "16 word"
  position_actual :: "32 word"

definition read_status_word :: "slave_input \<Rightarrow> 16 word" where
  "read_status_word slave = statusword slave"

definition read_actual_position :: "slave_input \<Rightarrow> int" where
  "read_actual_position slave = sint (position_actual slave)"

text \<open>
  \<^verbatim>\<open>_write_csp_outputs\<close>: \<^verbatim>\<open>struct.pack("<i", target_position)\<close> raises
  \<^verbatim>\<open>struct.error\<close> outside the signed 32-bit range; a controlword always fits
  \<^verbatim>\<open>"<H"\<close>.
\<close>

definition int32_ok :: "int \<Rightarrow> bool" where
  "int32_ok x \<longleftrightarrow> - (2 ^ 31) \<le> x \<and> x < 2 ^ 31"

definition write_csp_outputs :: "16 word \<Rightarrow> int \<Rightarrow> py_error + (16 word \<times> 32 word)" where
  "write_csp_outputs cw target_position =
     (if int32_ok target_position
      then Inr (cw, word_of_int target_position)
      else Inl StructError)"

text \<open>
  The records of the command channel, \<^verbatim>\<open>(slave_idx, cmd, value)\<close>. Bus-level commands
  carry the index \<open>-1\<close>, which the loop never uses as an index.
\<close>

datatype command_tag =
    STOP_ALL
  | SET_AXIS string
  | SET_ORIGIN
  | MOVE_TO_MM real
  | RESET_SYNC_ERROR
  | SET_VELOCITY real
  | SET_ACCEL int int

type_synonym command = "int \<times> command_tag"

text \<open>
  motor.py and motor_safe.py hold the same loop; the safe module adds the sync-error flag,
  the sync-error guard, the \<^verbatim>\<open>RESET_SYNC_ERROR\<close> command and a fifth slot per slave in the
  shared state block. The model has one definition per loop stage, with the module as a
  parameter. In the baseline module the flag does not exist: there it is never read or
  written.
\<close>

datatype variant = Baseline | Safe

record loop_state =
  motors :: "motor_state list"
  is_running :: bool
  sync_error_detected :: bool

section \<open>Stage 1: draining the command channel\<close>

text \<open>
  The body of \<^verbatim>\<open>while not command_queue.empty()\<close> for one record. The Boolean of the
  result says whether the loop leaves by \<^verbatim>\<open>break\<close>. A tag without a branch
  (\<^verbatim>\<open>SET_VELOCITY\<close>, \<^verbatim>\<open>SET_ACCEL\<close>, and \<^verbatim>\<open>RESET_SYNC_ERROR\<close> in the baseline module)
  is dropped.
\<close>

definition handle_command ::
  "variant \<Rightarrow> slave_input list \<Rightarrow> loop_state \<Rightarrow> (int \<times> real) list \<Rightarrow> command
     \<Rightarrow> py_error + (bool \<times> loop_state \<times> (int \<times> real) list)" where
  "handle_command v ins ls trajectory_commands c =
     (case c of (slave_idx, cmd) \<Rightarrow>
       (case cmd of
          STOP_ALL \<Rightarrow> Inr (True, ls\<lparr>is_running := False\<rparr>, trajectory_commands)
        | SET_AXIS val \<Rightarrow>
            (case py_index (length (motors ls)) slave_idx of
               Inl e \<Rightarrow> Inl e
             | Inr k \<Rightarrow>
                 Inr (False,
                      ls\<lparr>motors := (motors ls)[k := (motors ls ! k)\<lparr>axis := val\<rparr>]\<rparr>,
                      trajectory_commands))
        | SET_ORIGIN \<Rightarrow>
            (case py_index (length ins) slave_idx of
               Inl e \<Rightarrow> Inl e
             | Inr j \<Rightarrow>
                 (case py_index (length (motors ls)) slave_idx of
                    Inl e \<Rightarrow> Inl e
                  | Inr k \<Rightarrow>
                      (let current_pos = read_actual_position (ins ! j);
                           ms = (motors ls)[k := (motors ls ! k)
                                  \<lparr>target_pulse := current_pos, offset := current_pos\<rparr>]
                       in Inr (False,
                               (if v = Safe
                                then ls\<lparr>motors := ms, sync_error_detected := False\<rparr>
                                else ls\<lparr>motors := ms\<rparr>),
                               trajectory_commands))))
        | MOVE_TO_MM val \<Rightarrow>
            (if v = Safe \<and> sync_error_detected ls
             then Inr (False, ls, trajectory_commands)
             else Inr (False, ls, trajectory_commands @ [(slave_idx, val)]))
        | RESET_SYNC_ERROR \<Rightarrow>
            (if v = Safe
             then Inr (False, ls\<lparr>sync_error_detected := False\<rparr>, trajectory_commands)
             else Inr (False, ls, trajectory_commands))
        | SET_VELOCITY val \<Rightarrow> Inr (False, ls, trajectory_commands)
        | SET_ACCEL a d \<Rightarrow> Inr (False, ls, trajectory_commands)))"

text \<open>
  The drain loop over the records the channel hands out in this cycle. After a
  \<^verbatim>\<open>STOP_ALL\<close> the remaining records stay in the channel; they are the third component.
\<close>

fun drain ::
  "variant \<Rightarrow> slave_input list \<Rightarrow> loop_state \<Rightarrow> (int \<times> real) list \<Rightarrow> command list
     \<Rightarrow> py_error + (loop_state \<times> (int \<times> real) list \<times> command list)" where
  "drain v ins ls tc [] = Inr (ls, tc, [])"
| "drain v ins ls tc (c # q) =
     (case handle_command v ins ls tc c of
        Inl e \<Rightarrow> Inl e
      | Inr (stop, ls', tc') \<Rightarrow> if stop then Inr (ls', tc', q) else drain v ins ls' tc' q)"

section \<open>Stage 1b: instantiating the batch of trajectories\<close>

text \<open>First loop of the batch: an active trajectory of a commanded axis is dropped.\<close>

fun cancel_existing :: "motor_state list \<Rightarrow> (int \<times> real) list \<Rightarrow> py_error + motor_state list" where
  "cancel_existing ms [] = Inr ms"
| "cancel_existing ms (c # tc) =
     (case py_index (length ms) (fst c) of
        Inl e \<Rightarrow> Inl e
      | Inr k \<Rightarrow>
          cancel_existing
            (if trajectory (ms ! k) \<noteq> None then ms[k := (ms ! k)\<lparr>trajectory := None\<rparr>] else ms)
            tc)"

text \<open>
  One entry of \<^verbatim>\<open>trajectory_data\<close> (the keys that are only printed are left out).
  \<^verbatim>\<open>slave_configs\<close> is the dictionary filled before start-up from \<^verbatim>\<open>SET_VELOCITY\<close>
  records; \<open>cfg i\<close> is \<^verbatim>\<open>slave_configs.get(i, {}).get('velocity')\<close>.
\<close>

record traj_info =
  ti_slave_idx :: int
  ti_current_pos :: int
  ti_target_pos :: int
  ti_duration :: real

text \<open>
  \<^verbatim>\<open>slave_configs.get(slave_idx, {}).get('velocity', 60)\<close> and the two lines after it
  (motor.py lines 272-274, motor_safe.py lines 247-249): the velocity in pulses per second
  on the doubled scale, and the duration of the move, 1.0 s when that velocity is not
  positive.
\<close>

definition configured_velocity :: "(int \<Rightarrow> real option) \<Rightarrow> int \<Rightarrow> real" where
  "configured_velocity cfg slave_idx = (case cfg slave_idx of None \<Rightarrow> 60 | Some r \<Rightarrow> r)"

definition move_duration :: "int \<Rightarrow> real \<Rightarrow> real" where
  "move_duration distance velocity =
     (let velocity_pulse_per_sec = (velocity / 60) * real_of_int PULSES_PER_REVOLUTION * 2
      in if velocity_pulse_per_sec > 0 then real_of_int distance / velocity_pulse_per_sec else 1)"

definition plan_move ::
  "(int \<Rightarrow> real option) \<Rightarrow> slave_input list \<Rightarrow> motor_state list \<Rightarrow> int \<times> real
     \<Rightarrow> py_error + traj_info" where
  "plan_move cfg ins ms c =
     (case c of (slave_idx, target_mm) \<Rightarrow>
       (case py_index (length ms) slave_idx of
          Inl e \<Rightarrow> Inl e
        | Inr k \<Rightarrow>
            (let state = ms ! k;
                 target_pulse_abs = target_pulse_absolute (axis state) (offset state) target_mm
             in case py_index (length ins) slave_idx of
                  Inl e \<Rightarrow> Inl e
                | Inr j \<Rightarrow>
                    (let current_pos = read_actual_position (ins ! j);
                         distance = \<bar>target_pulse_abs - current_pos\<bar>;
                         duration = move_duration distance (configured_velocity cfg slave_idx)
                     in Inr \<lparr>ti_slave_idx = slave_idx, ti_current_pos = current_pos,
                             ti_target_pos = target_pulse_abs, ti_duration = duration\<rparr>))))"

fun plan_all ::
  "(int \<Rightarrow> real option) \<Rightarrow> slave_input list \<Rightarrow> motor_state list \<Rightarrow> (int \<times> real) list
     \<Rightarrow> py_error + traj_info list" where
  "plan_all cfg ins ms [] = Inr []"
| "plan_all cfg ins ms (c # tc) =
     (case plan_move cfg ins ms c of
        Inl e \<Rightarrow> Inl e
      | Inr ti \<Rightarrow>
          (case plan_all cfg ins ms tc of
             Inl e \<Rightarrow> Inl e
           | Inr tis \<Rightarrow> Inr (ti # tis)))"

text \<open>\<^verbatim>\<open>max(...)\<close> over a sequence raises \<^verbatim>\<open>ValueError\<close> when the sequence is empty.\<close>

definition py_max :: "real list \<Rightarrow> py_error + real" where
  "py_max xs = (case xs of [] \<Rightarrow> Inl ValueError | x # ys \<Rightarrow> Inr (fold max ys x))"

fun install_all ::
  "motor_state list \<Rightarrow> real \<Rightarrow> real \<Rightarrow> traj_info list \<Rightarrow> py_error + motor_state list" where
  "install_all ms max_duration common_start_time [] = Inr ms"
| "install_all ms max_duration common_start_time (ti # tis) =
     (case py_index (length ms) (ti_slave_idx ti) of
        Inl e \<Rightarrow> Inl e
      | Inr k \<Rightarrow>
          install_all
            (ms[k := (ms ! k)\<lparr>trajectory :=
                     Some \<lparr>t_start = ti_current_pos ti, t_end = ti_target_pos ti,
                           t_duration = max_duration, t_start_time = common_start_time\<rparr>\<rparr>])
            max_duration common_start_time tis)"

text \<open>
  The body of \<^verbatim>\<open>if trajectory_commands:\<close>; \<open>common_start_time\<close> is the reading of
  \<^verbatim>\<open>time.monotonic()\<close> taken once for the batch.
\<close>

definition start_batch ::
  "(int \<Rightarrow> real option) \<Rightarrow> slave_input list \<Rightarrow> real \<Rightarrow> motor_state list \<Rightarrow> (int \<times> real) list
     \<Rightarrow> py_error + motor_state list" where
  "start_batch cfg ins common_start_time ms tc =
     (case cancel_existing ms tc of
        Inl e \<Rightarrow> Inl e
      | Inr ms1 \<Rightarrow>
          (case plan_all cfg ins ms1 tc of
             Inl e \<Rightarrow> Inl e
           | Inr trajectory_data \<Rightarrow>
               (case py_max (map ti_duration trajectory_data) of
                  Inl e \<Rightarrow> Inl e
                | Inr m \<Rightarrow>
                    install_all ms1 (max m (1 / 10)) common_start_time trajectory_data)))"

text \<open>
  Stage 1 as a whole: drain, then the batch. The inputs are those of the previous PDO
  exchange. The result is the state and the records left in the channel.
\<close>

definition command_phase ::
  "variant \<Rightarrow> (int \<Rightarrow> real option) \<Rightarrow> slave_input list \<Rightarrow> real \<Rightarrow> loop_state \<Rightarrow> command list
     \<Rightarrow> py_error + (loop_state \<times> command list)" where
  "command_phase v cfg ins common_start_time ls q =
     (case drain v ins ls [] q of
        Inl e \<Rightarrow> Inl e
      | Inr (ls1, trajectory_commands, rest) \<Rightarrow>
          (if trajectory_commands \<noteq> [] \<and> (v = Safe \<longrightarrow> \<not> sync_error_detected ls1)
           then (case start_batch cfg ins common_start_time (motors ls1) trajectory_commands of
                   Inl e \<Rightarrow> Inl e
                 | Inr ms \<Rightarrow> Inr (ls1\<lparr>motors := ms\<rparr>, rest))
           else Inr (ls1, rest)))"

section \<open>Stage 3: the safety guards\<close>

text \<open>
  Stage 2 of a cycle is the PDO exchange (\<^verbatim>\<open>send_processdata\<close>,
  \<^verbatim>\<open>receive_processdata\<close>). It replaces the inputs of the slaves: stage 1 reads those
  of the previous exchange, stages 3 to 5 read those of this one, and within a stage
  every read of a slave returns the same statusword and position.
\<close>

text \<open>
  The emergency stop of the sync-error guard (motor_safe.py lines 322-327): every axis
  with a trajectory loses it and latches the position read at the top of the guard.
\<close>

fun sync_abort :: "int list \<Rightarrow> motor_state list \<Rightarrow> nat list \<Rightarrow> motor_state list" where
  "sync_abort positions ms [] = ms"
| "sync_abort positions ms (j # js) =
     sync_abort positions
       (if trajectory (ms ! j) \<noteq> None
        then ms[j := (ms ! j)\<lparr>trajectory := None, target_pulse := positions ! j\<rparr>]
        else ms)
       js"

text \<open>
  The sync-error guard (motor_safe.py lines 283-329). The two list comprehensions at its
  top raise \<^verbatim>\<open>IndexError\<close> when \<^verbatim>\<open>master.slaves\<close> or \<^verbatim>\<open>local_motor_states\<close> has
  fewer than \<open>num_slaves\<close> entries; after them no index of the guard can be out of
  range. The \<^verbatim>\<open>for\<close> loop over the adjacent pairs leaves at the first pair above the
  threshold, and what it does there does not depend on the pair, except for what it prints.
\<close>

definition sync_guard ::
  "nat \<Rightarrow> int \<Rightarrow> slave_input list \<Rightarrow> loop_state \<Rightarrow> py_error + loop_state" where
  "sync_guard num_slaves max_sync_pulse ins ls =
     (if 2 \<le> num_slaves \<and> \<not> sync_error_detected ls then
        (if length ins < num_slaves \<or> length (motors ls) < num_slaves then Inl IndexError
         else
           (let positions = map (\<lambda>i. read_actual_position (ins ! i)) [0..<num_slaves];
                relative_positions =
                  map (\<lambda>i. positions ! i - offset (motors ls ! i)) [0..<num_slaves];
                any_moving =
                  list_ex (\<lambda>i. trajectory (motors ls ! i) \<noteq> None) [0..<num_slaves]
            in if any_moving \<and>
                  list_ex (\<lambda>i. \<bar>relative_positions ! i - relative_positions ! (i + 1)\<bar>
                                 > max_sync_pulse) [0..<num_slaves - 1]
               then Inr (ls\<lparr>sync_error_detected := True,
                            motors := sync_abort positions (motors ls) [0..<num_slaves]\<rparr>)
               else Inr ls))
      else Inr ls)"

text \<open>
  The fault scan (motor.py lines 321-328, motor_safe.py lines 339-346): the first axis
  with statusword bit 3 and a trajectory ends the scan. The \<^verbatim>\<open>and\<close> reads the motor
  state only when bit 3 is set.
\<close>

fun fault_scan :: "slave_input list \<Rightarrow> motor_state list \<Rightarrow> nat list \<Rightarrow> py_error + bool" where
  "fault_scan ins ms [] = Inr False"
| "fault_scan ins ms (i # is) =
     (if length ins \<le> i then Inl IndexError
      else if read_status_word (ins ! i) AND 0x0008 \<noteq> 0
      then (if length ms \<le> i then Inl IndexError
            else if trajectory (ms ! i) \<noteq> None then Inr True
            else fault_scan ins ms is)
      else fault_scan ins ms is)"

text \<open>The fan-out stop after a fault (motor.py lines 333-338, motor_safe.py lines 350-355).\<close>

fun fault_abort ::
  "slave_input list \<Rightarrow> motor_state list \<Rightarrow> nat list \<Rightarrow> py_error + motor_state list" where
  "fault_abort ins ms [] = Inr ms"
| "fault_abort ins ms (i # is) =
     (if length ms \<le> i then Inl IndexError
      else if trajectory (ms ! i) \<noteq> None
      then (if length ins \<le> i then Inl IndexError
            else fault_abort ins
                   (ms[i := (ms ! i)\<lparr>trajectory := None,
                                      target_pulse := read_actual_position (ins ! i)\<rparr>])
                   is)
      else fault_abort ins ms is)"

definition fault_guard ::
  "nat \<Rightarrow> slave_input list \<Rightarrow> motor_state list \<Rightarrow> py_error + motor_state list" where
  "fault_guard num_slaves ins ms =
     (case fault_scan ins ms [0..<num_slaves] of
        Inl e \<Rightarrow> Inl e
      | Inr fault_detected \<Rightarrow>
          if fault_detected then fault_abort ins ms [0..<num_slaves] else Inr ms)"

section \<open>Stage 4: the control step of one slave\<close>

text \<open>
  The raised-cosine interpolation (motor.py lines 409-416, motor_safe.py lines 402-404),
  as a function of the progress.
\<close>

definition interpolate :: "traj \<Rightarrow> real \<Rightarrow> int" where
  "interpolate tr progress =
     (let smooth_progress = (1 - cos (pi * progress)) / 2
      in py_int (real_of_int (t_start tr)
                 + real_of_int (t_end tr - t_start tr) * smooth_progress))"

text \<open>
  The body of the loop over the slaves up to the call of \<^verbatim>\<open>_write_csp_outputs\<close>: the
  result is the controlword, the target position handed to the output frame and the
  motor state. \<open>now\<close> is the reading of \<^verbatim>\<open>time.monotonic()\<close> in this step. The branch
  under \<^verbatim>\<open>if False and ...\<close> of motor.py is dead and left out. Python raises
  \<^verbatim>\<open>ZeroDivisionError\<close> on a trajectory of duration zero.
\<close>

definition axis_step ::
  "real \<Rightarrow> slave_input \<Rightarrow> motor_state \<Rightarrow> py_error + (16 word \<times> int \<times> motor_state)" where
  "axis_step now slave state0 =
     (let status = read_status_word slave;
          state = state0\<lparr>last_status := Some status\<rparr>;
          cw = controlword status;
          target_position = target_pulse state
      in case trajectory state of
           None \<Rightarrow> Inr (cw, target_position, state)
         | Some tr \<Rightarrow>
             (let elapsed = now - t_start_time tr;
                  current_actual_pos = read_actual_position slave;
                  position_error = \<bar>t_end tr - current_actual_pos\<bar>
              in if position_error < 50000
                 then Inr (cw, t_end tr, state\<lparr>target_pulse := t_end tr, trajectory := None\<rparr>)
                 else if t_duration tr = 0 then Inl ZeroDivisionError
                 else
                   (let progress = min (elapsed / t_duration tr) 1;
                        target_position = interpolate tr progress
                    in Inr (cw, target_position, state\<lparr>target_pulse := target_position\<rparr>))))"

text \<open>
  The shared state block is a flat array of doubles, \<open>stride\<close> slots per slave: four in
  the baseline module, five in the safe module (the fifth is the sync-error flag).
\<close>

definition stride :: "variant \<Rightarrow> nat" where
  "stride v = (case v of Baseline \<Rightarrow> 4 | Safe \<Rightarrow> 5)"

definition publish ::
  "variant \<Rightarrow> nat \<Rightarrow> 16 word \<Rightarrow> motor_state \<Rightarrow> int \<Rightarrow> bool \<Rightarrow> real list \<Rightarrow> py_error + real list" where
  "publish v i status state current_pos sync_error shared_states =
     (let base_idx = i * stride v
      in if length shared_states < base_idx + stride v then Inl IndexError
         else
           (let s0 = shared_states[base_idx := real (unat status),
                                   base_idx + 1 := (if trajectory state \<noteq> None then 1 else 0),
                                   base_idx + 2 := real_of_int current_pos,
                                   base_idx + 3 := real_of_int (offset state)]
            in Inr (if v = Safe then s0[base_idx + 4 := (if sync_error then 1 else 0)] else s0)))"

text \<open>
  One pass of the loop over the slaves: control step, output frame, publication. The
  frames of the cycle are collected in the order of the slaves.
\<close>

type_synonym control_acc = "motor_state list \<times> (16 word \<times> 32 word) list \<times> real list"

definition control_axis ::
  "variant \<Rightarrow> bool \<Rightarrow> slave_input list \<Rightarrow> real \<Rightarrow> nat \<Rightarrow> control_acc \<Rightarrow> py_error + control_acc" where
  "control_axis v sync_error ins now i acc =
     (case acc of (ms, frames, shared_states) \<Rightarrow>
        if length ins \<le> i \<or> length ms \<le> i then Inl IndexError
        else
          (case axis_step now (ins ! i) (ms ! i) of
             Inl e \<Rightarrow> Inl e
           | Inr (cw, target_position, state) \<Rightarrow>
               (case write_csp_outputs cw target_position of
                  Inl e \<Rightarrow> Inl e
                | Inr frame \<Rightarrow>
                    (case publish v i (read_status_word (ins ! i)) state
                            (read_actual_position (ins ! i)) sync_error shared_states of
                       Inl e \<Rightarrow> Inl e
                     | Inr sh \<Rightarrow> Inr (ms[i := state], frames @ [frame], sh)))))"

fun control_loop ::
  "variant \<Rightarrow> bool \<Rightarrow> slave_input list \<Rightarrow> (nat \<Rightarrow> real) \<Rightarrow> nat list \<Rightarrow> control_acc
     \<Rightarrow> py_error + control_acc" where
  "control_loop v sync_error ins clock [] acc = Inr acc"
| "control_loop v sync_error ins clock (i # is) acc =
     (case control_axis v sync_error ins (clock i) i acc of
        Inl e \<Rightarrow> Inl e
      | Inr acc' \<Rightarrow> control_loop v sync_error ins clock is acc')"

text \<open>
  Stage 3 as a whole, after the PDO exchange has delivered the inputs \<open>ins\<close>: the
  sync-error guard (safe module only), then the fault guard.
\<close>

definition safety_pass ::
  "variant \<Rightarrow> nat \<Rightarrow> int \<Rightarrow> slave_input list \<Rightarrow> loop_state \<Rightarrow> py_error + loop_state" where
  "safety_pass v num_slaves max_sync_pulse ins ls =
     (case (if v = Safe then sync_guard num_slaves max_sync_pulse ins ls else Inr ls) of
        Inl e \<Rightarrow> Inl e
      | Inr ls1 \<Rightarrow>
          (case fault_guard num_slaves ins (motors ls1) of
             Inl e \<Rightarrow> Inl e
           | Inr ms2 \<Rightarrow> Inr (ls1\<lparr>motors := ms2\<rparr>)))"

text \<open>
  Stages 3 to 5 of a cycle: safety pass, then the loop over the slaves. \<open>clock i\<close> is
  the reading of the monotonic clock in the step of slave \<open>i\<close>.
\<close>

definition control_phase ::
  "variant \<Rightarrow> nat \<Rightarrow> int \<Rightarrow> slave_input list \<Rightarrow> (nat \<Rightarrow> real) \<Rightarrow> loop_state \<Rightarrow> real list
     \<Rightarrow> py_error + (loop_state \<times> (16 word \<times> 32 word) list \<times> real list)" where
  "control_phase v num_slaves max_sync_pulse ins clock ls shared_states =
     (case safety_pass v num_slaves max_sync_pulse ins ls of
        Inl e \<Rightarrow> Inl e
      | Inr ls1 \<Rightarrow>
          (case control_loop v (sync_error_detected ls1) ins clock [0..<num_slaves]
                  (motors ls1, [], shared_states) of
             Inl e \<Rightarrow> Inl e
           | Inr (ms3, frames, sh) \<Rightarrow> Inr (ls1\<lparr>motors := ms3\<rparr>, frames, sh)))"

text \<open>
  One iteration of \<^verbatim>\<open>while is_running\<close>: \<open>ins_prev\<close> are the inputs of the previous
  PDO exchange, \<open>ins\<close> those of this cycle's exchange. A cycle that drained
  \<^verbatim>\<open>STOP_ALL\<close> leaves the loop before the exchange.
\<close>

datatype cycle_result =
    Stopped loop_state "command list"
  | Cycled loop_state "(16 word \<times> 32 word) list" "real list"

definition cycle ::
  "variant \<Rightarrow> (int \<Rightarrow> real option) \<Rightarrow> nat \<Rightarrow> int \<Rightarrow> slave_input list \<Rightarrow> real \<Rightarrow> command list
     \<Rightarrow> slave_input list \<Rightarrow> (nat \<Rightarrow> real) \<Rightarrow> loop_state \<Rightarrow> real list \<Rightarrow> py_error + cycle_result" where
  "cycle v cfg num_slaves max_sync_pulse ins_prev common_start_time q ins clock ls shared_states =
     (case command_phase v cfg ins_prev common_start_time ls q of
        Inl e \<Rightarrow> Inl e
      | Inr (ls1, rest) \<Rightarrow>
          if \<not> is_running ls1 then Inr (Stopped ls1 rest)
          else
            (case control_phase v num_slaves max_sync_pulse ins clock ls1 shared_states of
               Inl e \<Rightarrow> Inl e
             | Inr (ls2, frames, sh) \<Rightarrow> Inr (Cycled ls2 frames sh)))"

section \<open>Start-up values and statements of the specification\<close>

text \<open>
  The entries of \<^verbatim>\<open>local_motor_states\<close> and the loop variables as the loop functions
  create them.
\<close>

definition initial_motor_state :: motor_state where
  "initial_motor_state =
     \<lparr>target_pulse = 0, offset = 0, axis = ''x'', trajectory = None, last_status = None\<rparr>"

definition initial_loop_state :: "nat \<Rightarrow> loop_state" where
  "initial_loop_state num_slaves =
     \<lparr>motors = replicate num_slaves initial_motor_state, is_running = True,
      sync_error_detected = False\<rparr>"



text \<open>An axis with an active move from 0 to 100000 pulses, for the concrete runs below.\<close>

definition example_traj :: traj where
  "example_traj = \<lparr>t_start = 0, t_end = 100000, t_duration = 1, t_start_time = 0\<rparr>"

definition moving_motor :: motor_state where
  "moving_motor = initial_motor_state\<lparr>trajectory := Some example_traj\<rparr>"

text \<open>
  What either emergency stop does to one axis: an axis with a trajectory loses it and
  latches the given position, an axis without one is left as it is. The loops
  \<open>sync_abort\<close> and \<open>fault_abort\<close> are shown below to apply it to every axis.
\<close>

definition abort_axis :: "int \<Rightarrow> motor_state \<Rightarrow> motor_state" where
  "abort_axis current_pos st =
     (if trajectory st \<noteq> None then st\<lparr>trajectory := None, target_pulse := current_pos\<rparr> else st)"

text \<open>Two axes in a coordinated move, and the inputs of two concrete cycles.\<close>

definition two_moving :: loop_state where
  "two_moving =
     \<lparr>motors = [moving_motor, moving_motor], is_running = True, sync_error_detected = False\<rparr>"

definition diverged_inputs :: "slave_input list" where
  "diverged_inputs =
     [\<lparr>statusword = 0x0027, position_actual = 0\<rparr>,
      \<lparr>statusword = 0x0027, position_actual = 2000000\<rparr>]"

definition faulted_inputs :: "slave_input list" where
  "faulted_inputs =
     [\<lparr>statusword = 0x0027, position_actual = 1000\<rparr>,
      \<lparr>statusword = 0x0008, position_actual = 70000\<rparr>]"





text \<open>The loop state of a one-slave bus after a sync error.\<close>

definition sync_error_state :: loop_state where
  "sync_error_state = (initial_loop_state 1)\<lparr>sync_error_detected := True\<rparr>"

text \<open>
  The two unit conversions once more, with every float operation of the source followed
  by a rounding \<open>rnd\<close>: the constant, the division and the two multiplications of
  the target computation; the subtraction, the division and the multiplication of
  \<^verbatim>\<open>current_position_mm\<close>. \<open>double_rounding rnd\<close> is the standard model of IEEE 754
  binary64 arithmetic in round-to-nearest below the overflow threshold: a relative error
  of at most \<open>2\<^sup>-\<^sup>5\<^sup>3\<close>, or an absolute error of at most \<open>2\<^sup>-\<^sup>1\<^sup>0\<^sup>7\<^sup>5\<close> for a subnormal result.
  Exact arithmetic is the instance \<open>rnd = (\<lambda>x. x)\<close>.
\<close>

definition double_rounding :: "(real \<Rightarrow> real) \<Rightarrow> bool" where
  "double_rounding rnd \<longleftrightarrow>
     (\<forall>x. \<bar>x\<bar> \<le> 2 ^ 1023 \<longrightarrow> \<bar>rnd x - x\<bar> \<le> \<bar>x\<bar> / 2 ^ 53 + 1 / 2 ^ 1075)"

definition target_pulse_relative_fl :: "(real \<Rightarrow> real) \<Rightarrow> string \<Rightarrow> real \<Rightarrow> int" where
  "target_pulse_relative_fl rnd ax target_mm =
     (let revolutions = rnd (target_mm / rnd (mm_per_rev ax))
      in py_int (rnd (rnd (revolutions * real_of_int PULSES_PER_REVOLUTION) * 2)))"

definition current_position_mm_fl :: "(real \<Rightarrow> real) \<Rightarrow> string \<Rightarrow> real \<Rightarrow> real \<Rightarrow> real" where
  "current_position_mm_fl rnd ax current_pos off =
     (let relative_pos = rnd (current_pos - off);
          revolutions = rnd (relative_pos / real_of_int (PULSES_PER_REVOLUTION * 2))
      in rnd (revolutions * rnd (mm_per_rev ax)))"

definition target_pulse_absolute_fl :: "(real \<Rightarrow> real) \<Rightarrow> string \<Rightarrow> int \<Rightarrow> real \<Rightarrow> int" where
  "target_pulse_absolute_fl rnd ax off target_mm = target_pulse_relative_fl rnd ax target_mm + off"

section \<open>Properties of the Python primitives\<close>




lemma py_int_close: "\<bar>real_of_int (py_int x) - (x :: real)\<bar> < 1"
  unfolding py_int_def by (simp; linarith)


lemma mm_per_rev_pos: "0 < mm_per_rev ax"
  by (simp add: mm_per_rev_def x_axis_mm_per_rev_def z_axis_mm_per_rev_def)

lemma mm_per_rev_le: "mm_per_rev ax \<le> 12"
  by (simp add: mm_per_rev_def x_axis_mm_per_rev_def z_axis_mm_per_rev_def)

section \<open>Drive state machine\<close>

lemma fault_bit_excludes_4F:
  fixes sw :: "16 word"
  assumes "sw AND 0x0008 \<noteq> 0"
  shows "sw AND 0x004F \<noteq> 0x0040"
proof
  assume "sw AND 0x004F = 0x0040"
  then have "(sw AND 0x004F) AND 0x0008 = 0x0040 AND 0x0008" by simp
  then have "sw AND (0x004F AND 0x0008) = 0" by (simp add: and.assoc)
  then have "sw AND 0x0008 = 0" by simp
  with assms show False by simp
qed

lemma fault_bit_excludes_6F:
  fixes sw :: "16 word"
  assumes "sw AND 0x0008 \<noteq> 0"
  shows "sw AND 0x006F \<noteq> 0x0021 \<and> sw AND 0x006F \<noteq> 0x0023 \<and> sw AND 0x006F \<noteq> 0x0027"
proof -
  have "False" if "sw AND 0x006F = v" and "v AND 0x0008 = 0" for v :: "16 word"
  proof -
    from that have "(sw AND 0x006F) AND 0x0008 = 0" by simp
    then have "sw AND (0x006F AND 0x0008) = 0" by (simp add: and.assoc)
    then have "sw AND 0x0008 = 0" by simp
    with assms show False by simp
  qed
  from this [of "0x0021"] this [of "0x0023"] this [of "0x0027"] show ?thesis by auto
qed

lemma rows_4F_6F_disjoint:
  fixes sw :: "16 word"
  assumes "sw AND 0x004F = 0x0040"
  shows "sw AND 0x006F \<noteq> 0x0021 \<and> sw AND 0x006F \<noteq> 0x0023 \<and> sw AND 0x006F \<noteq> 0x0027"
proof -
  from assms have "(sw AND 0x004F) AND 0x0001 = 0x0040 AND 0x0001" by simp
  then have "sw AND (0x004F AND 0x0001) = 0" by (simp add: and.assoc)
  then have low: "sw AND 0x0001 = 0" by simp
  have "False" if "sw AND 0x006F = v" and "v AND 0x0001 = 1" for v :: "16 word"
  proof -
    from that have "(sw AND 0x006F) AND 0x0001 = 1" by simp
    then have "sw AND (0x006F AND 0x0001) = 1" by (simp add: and.assoc)
    then have "sw AND 0x0001 = 1" by simp
    with low show False by simp
  qed
  from this [of "0x0021"] this [of "0x0023"] this [of "0x0027"] show ?thesis by auto
qed

lemma spec_row_functional: "spec_row sw cw \<longleftrightarrow> cw = controlword sw"
proof (cases "sw AND 0x0008 \<noteq> 0")
  case True
  with fault_bit_excludes_4F [OF True] fault_bit_excludes_6F [OF True] show ?thesis
    by (auto simp: spec_row_def spec_row_matches_def controlword_def CW_FAULT_RESET_def)
next
  case False
  note nofault = this
  show ?thesis
  proof (cases "sw AND 0x004F = 0x0040")
    case True
    with nofault rows_4F_6F_disjoint [OF True] show ?thesis
      by (auto simp: spec_row_def spec_row_matches_def controlword_def CW_SHUTDOWN_def)
  next
    case False
    with nofault show ?thesis
      by (auto simp: spec_row_def spec_row_matches_def controlword_def
          CW_SWITCH_ON_def CW_ENABLE_OPERATION_def)
  qed
qed

lemma fault_bit_controlword:
  fixes sw :: "16 word"
  assumes "sw AND 0x0008 \<noteq> 0"
  shows "controlword sw = 0x0080"
  using assms fault_bit_excludes_4F [OF assms] fault_bit_excludes_6F [OF assms]
  by (simp add: controlword_def CW_FAULT_RESET_def)

section \<open>The control step and the loop over the slaves\<close>

lemma axis_step_cw:
  "axis_step now slave st = Inr (cw, tp, st') \<Longrightarrow> cw = controlword (read_status_word slave)"
  by (auto simp: axis_step_def Let_def split: option.splits if_splits)

lemma control_axis_frame:
  assumes "control_axis v se ins now i (ms, fr, sh) = Inr (ms', fr', sh')"
  shows "\<exists>f. fr' = fr @ [f] \<and> fst f = controlword (read_status_word (ins ! i))"
  using assms
  by (auto simp: control_axis_def write_csp_outputs_def
      split: if_splits sum.splits prod.splits dest: axis_step_cw)

lemma control_loop_frames:
  assumes "control_loop v se ins clock js (ms, fr, sh) = Inr (ms', fr', sh')"
  shows "\<exists>fs. fr' = fr @ fs \<and> length fs = length js
           \<and> (\<forall>k < length js. fst (fs ! k) = controlword (read_status_word (ins ! (js ! k))))"
  using assms
proof (induction js arbitrary: ms fr sh)
  case Nil
  then show ?case by simp
next
  case (Cons j js)
  from Cons.prems obtain ms1 fr1 sh1 where
    step: "control_axis v se ins (clock j) j (ms, fr, sh) = Inr (ms1, fr1, sh1)" and
    rest: "control_loop v se ins clock js (ms1, fr1, sh1) = Inr (ms', fr', sh')"
    by (auto split: sum.splits)
  from control_axis_frame [OF step] obtain f where
    f: "fr1 = fr @ [f]" "fst f = controlword (read_status_word (ins ! j))" by blast
  from Cons.IH [OF rest] obtain fs where
    fs: "fr' = fr1 @ fs" "length fs = length js"
      "\<forall>k < length js. fst (fs ! k) = controlword (read_status_word (ins ! (js ! k)))"
    by blast
  have "fr' = fr @ (f # fs)" using f fs by simp
  moreover have "length (f # fs) = length (j # js)" using fs by simp
  moreover have "\<forall>k < length (j # js).
      fst ((f # fs) ! k) = controlword (read_status_word (ins ! ((j # js) ! k)))"
    using f fs by (auto simp: nth_Cons split: nat.splits)
  ultimately show ?case by blast
qed

lemma control_phase_frames:
  assumes "control_phase v n maxp ins clock ls sh = Inr (ls', frames, sh')"
  shows "length frames = n
     \<and> (\<forall>i < n. fst (frames ! i) = controlword (read_status_word (ins ! i)))"
proof -
  from assms have "\<exists>se ms2 ms3.
      control_loop v se ins clock [0..<n] (ms2, [], sh) = Inr (ms3, frames, sh')"
    by (auto simp: control_phase_def split: sum.splits prod.splits)
  then obtain se ms2 ms3 where
    "control_loop v se ins clock [0..<n] (ms2, [], sh) = Inr (ms3, frames, sh')"
    by blast
  from control_loop_frames [OF this] show ?thesis by auto
qed

lemma write_csp_outputs_sint:
  assumes "write_csp_outputs cw tp = Inr f"
  shows "fst f = cw \<and> sint (snd f) = tp"
proof -
  from assms have r: "- (2 ^ 31) \<le> tp" "tp < 2 ^ 31" and f: "f = (cw, word_of_int tp)"
    by (auto simp: write_csp_outputs_def int32_ok_def split: if_splits)
  have "sint (word_of_int tp :: 32 word) = tp"
    using r by (simp add: signed_of_int signed_take_bit_int_eq_self)
  with f show ?thesis by simp
qed

lemma read_actual_position_range:
  "- (2 ^ 31) \<le> read_actual_position slave \<and> read_actual_position slave < 2 ^ 31"
  using sint_ge [of "position_actual slave"] sint_lt [of "position_actual slave"]
  by (simp add: read_actual_position_def)

lemma axis_step_idle:
  assumes "trajectory st = None"
  shows "axis_step now slave st
     = Inr (controlword (read_status_word slave), target_pulse st,
            st\<lparr>last_status := Some (read_status_word slave)\<rparr>)"
  using assms by (simp add: axis_step_def Let_def)

lemma axis_step_complete:
  assumes "trajectory st = Some tr"
    and "\<bar>t_end tr - read_actual_position slave\<bar> < 50000"
  shows "axis_step now slave st
     = Inr (controlword (read_status_word slave), t_end tr,
            st\<lparr>last_status := Some (read_status_word slave), target_pulse := t_end tr,
               trajectory := None\<rparr>)"
  using assms by (simp add: axis_step_def Let_def)

lemma axis_step_continue:
  assumes "trajectory st = Some tr"
    and "50000 \<le> \<bar>t_end tr - read_actual_position slave\<bar>"
    and "t_duration tr \<noteq> 0"
  shows "axis_step now slave st
     = Inr (controlword (read_status_word slave),
            interpolate tr (min ((now - t_start_time tr) / t_duration tr) 1),
            st\<lparr>last_status := Some (read_status_word slave),
               target_pulse := interpolate tr (min ((now - t_start_time tr) / t_duration tr) 1)\<rparr>)"
  using assms by (simp add: axis_step_def Let_def)





lemma publish_result:
  assumes "publish v i status st pos se sh = Inr sh'"
  shows "length sh' = length sh
     \<and> i * stride v + stride v \<le> length sh
     \<and> sh' ! (i * stride v + 1) = (if trajectory st \<noteq> None then 1 else 0)
     \<and> (v = Safe \<longrightarrow> sh' ! (i * stride v + 4) = (if se then 1 else 0))
     \<and> (\<forall>p. p < i * stride v \<or> i * stride v + stride v \<le> p \<longrightarrow> sh' ! p = sh ! p)"
  using assms
  by (cases v) (auto simp: publish_def stride_def Let_def split: if_splits)

lemma control_axis_result:
  assumes "control_axis v se ins now i (ms, fr, sh) = Inr (ms', fr', sh')"
  shows "i < length ms \<and> i < length ins
     \<and> (\<exists>cw tp st' f. axis_step now (ins ! i) (ms ! i) = Inr (cw, tp, st')
          \<and> ms' = ms[i := st']
          \<and> write_csp_outputs cw tp = Inr f \<and> fr' = fr @ [f]
          \<and> publish v i (read_status_word (ins ! i)) st' (read_actual_position (ins ! i)) se sh
              = Inr sh')"
  using assms
  by (auto simp: control_axis_def split: if_splits sum.splits prod.splits)

lemma slot_below:
  fixes j i s :: nat
  assumes "j < i"
  shows "j * s + s \<le> i * s"
proof -
  from assms have "Suc j \<le> i" by simp
  then have "Suc j * s \<le> i * s" by (rule mult_le_mono1)
  then show ?thesis by simp
qed

lemma control_loop_result:
  assumes "control_loop v se ins clock js (ms, fr, sh) = Inr (ms', fr', sh')"
    and "sorted_wrt (<) js"
  shows "length ms' = length ms \<and> length sh' = length sh
     \<and> length fr' = length fr + length js
     \<and> (\<forall>k < length fr. fr' ! k = fr ! k)
     \<and> (\<forall>i. i \<notin> set js \<longrightarrow> ms' ! i = ms ! i)
     \<and> (\<forall>p. (\<forall>i \<in> set js. p < i * stride v \<or> i * stride v + stride v \<le> p)
            \<longrightarrow> sh' ! p = sh ! p)
     \<and> (\<forall>k < length js. \<exists>cw tp.
           axis_step (clock (js ! k)) (ins ! (js ! k)) (ms ! (js ! k))
             = Inr (cw, tp, ms' ! (js ! k))
           \<and> write_csp_outputs cw tp = Inr (fr' ! (length fr + k))
           \<and> sh' ! (js ! k * stride v + 1)
               = (if trajectory (ms' ! (js ! k)) \<noteq> None then 1 else 0)
           \<and> (v = Safe \<longrightarrow> sh' ! (js ! k * stride v + 4) = (if se then 1 else 0)))"
  using assms
proof (induction js arbitrary: ms fr sh)
  case Nil
  then show ?case by simp
next
  case (Cons j js)
  from Cons.prems(1) obtain ms1 fr1 sh1 where
    step: "control_axis v se ins (clock j) j (ms, fr, sh) = Inr (ms1, fr1, sh1)" and
    rest: "control_loop v se ins clock js (ms1, fr1, sh1) = Inr (ms', fr', sh')"
    by (auto split: sum.splits)
  from Cons.prems(2) have sorted: "sorted_wrt (<) js" and above: "\<forall>i \<in> set js. j < i"
    by simp_all
  from control_axis_result [OF step] obtain cw tp st' f where
    j: "j < length ms" "j < length ins"
      "axis_step (clock j) (ins ! j) (ms ! j) = Inr (cw, tp, st')"
      "ms1 = ms[j := st']" "write_csp_outputs cw tp = Inr f" "fr1 = fr @ [f]"
      "publish v j (read_status_word (ins ! j)) st' (read_actual_position (ins ! j)) se sh
         = Inr sh1"
    by blast
  note pub = publish_result [OF j(7)]
  note ih = Cons.IH [OF rest sorted]
  have len: "length ms' = length ms" "length sh' = length sh"
    "length fr' = length fr + length (j # js)"
    using ih j(4,6) pub by simp_all
  have pre: "\<forall>k < length fr. fr' ! k = fr ! k"
    using ih j(6) by (simp add: nth_append)
  have other: "\<forall>i. i \<notin> set (j # js) \<longrightarrow> ms' ! i = ms ! i"
    using ih j(4) by simp
  have ih_sh: "sh' ! p = sh1 ! p"
    if "\<forall>i \<in> set js. p < i * stride v \<or> i * stride v + stride v \<le> p" for p
    using ih that by blast
  have pub_sh: "sh1 ! p = sh ! p" if "p < j * stride v \<or> j * stride v + stride v \<le> p" for p
    using pub that by blast
  have untouched: "\<forall>p. (\<forall>i \<in> set (j # js). p < i * stride v \<or> i * stride v + stride v \<le> p)
            \<longrightarrow> sh' ! p = sh ! p"
    using ih_sh pub_sh by simp
  have jnot: "j \<notin> set js" using above by auto
  have msj: "ms' ! j = st'" using ih jnot j(1,4) by simp
  have frj: "fr' ! length fr = f" using ih j(6) by (simp add: nth_append)
  have stride4: "4 \<le> stride v" by (cases v) (simp_all add: stride_def)
  have stride_safe: "v = Safe \<Longrightarrow> stride v = 5" by (simp add: stride_def)
  have shj: "sh' ! p = sh1 ! p" if "p < j * stride v + stride v" for p
  proof -
    have "\<forall>i \<in> set js. p < i * stride v"
    proof
      fix i assume "i \<in> set js"
      with above have "j < i" by simp
      from slot_below [OF this, of "stride v"] that show "p < i * stride v" by simp
    qed
    then show ?thesis by (intro ih_sh) blast
  qed
  have head: "\<exists>cw tp.
           axis_step (clock j) (ins ! j) (ms ! j) = Inr (cw, tp, ms' ! j)
           \<and> write_csp_outputs cw tp = Inr (fr' ! (length fr))
           \<and> sh' ! (j * stride v + 1) = (if trajectory (ms' ! j) \<noteq> None then 1 else 0)
           \<and> (v = Safe \<longrightarrow> sh' ! (j * stride v + 4) = (if se then 1 else 0))"
  proof -
    have "sh' ! (j * stride v + 1) = sh1 ! (j * stride v + 1)"
      using stride4 by (intro shj) simp
    moreover have "v = Safe \<longrightarrow> sh' ! (j * stride v + 4) = sh1 ! (j * stride v + 4)"
      using stride_safe by (auto intro!: shj)
    ultimately show ?thesis using j(3,5) msj frj pub by auto
  qed
  have tail: "\<exists>cw tp.
           axis_step (clock (js ! k)) (ins ! (js ! k)) (ms ! (js ! k))
             = Inr (cw, tp, ms' ! (js ! k))
           \<and> write_csp_outputs cw tp = Inr (fr' ! (length fr + Suc k))
           \<and> sh' ! (js ! k * stride v + 1)
               = (if trajectory (ms' ! (js ! k)) \<noteq> None then 1 else 0)
           \<and> (v = Safe \<longrightarrow> sh' ! (js ! k * stride v + 4) = (if se then 1 else 0))"
    if "k < length js" for k
  proof -
    from that have "js ! k \<in> set js" by simp
    with jnot have "js ! k \<noteq> j" by auto
    then have e1: "ms1 ! (js ! k) = ms ! (js ! k)" using j(4) by simp
    have e2: "length fr1 + k = length fr + Suc k" using j(6) by simp
    have "\<exists>cw tp.
           axis_step (clock (js ! k)) (ins ! (js ! k)) (ms1 ! (js ! k))
             = Inr (cw, tp, ms' ! (js ! k))
           \<and> write_csp_outputs cw tp = Inr (fr' ! (length fr1 + k))
           \<and> sh' ! (js ! k * stride v + 1)
               = (if trajectory (ms' ! (js ! k)) \<noteq> None then 1 else 0)
           \<and> (v = Safe \<longrightarrow> sh' ! (js ! k * stride v + 4) = (if se then 1 else 0))"
      using ih that by blast
    then show ?thesis unfolding e1 e2 .
  qed
  have all: "\<forall>k < length (j # js). \<exists>cw tp.
           axis_step (clock ((j # js) ! k)) (ins ! ((j # js) ! k)) (ms ! ((j # js) ! k))
             = Inr (cw, tp, ms' ! ((j # js) ! k))
           \<and> write_csp_outputs cw tp = Inr (fr' ! (length fr + k))
           \<and> sh' ! ((j # js) ! k * stride v + 1)
               = (if trajectory (ms' ! ((j # js) ! k)) \<noteq> None then 1 else 0)
           \<and> (v = Safe \<longrightarrow> sh' ! ((j # js) ! k * stride v + 4) = (if se then 1 else 0))"
  proof (intro allI impI)
    fix k assume "k < length (j # js)"
    then show "\<exists>cw tp.
           axis_step (clock ((j # js) ! k)) (ins ! ((j # js) ! k)) (ms ! ((j # js) ! k))
             = Inr (cw, tp, ms' ! ((j # js) ! k))
           \<and> write_csp_outputs cw tp = Inr (fr' ! (length fr + k))
           \<and> sh' ! ((j # js) ! k * stride v + 1)
               = (if trajectory (ms' ! ((j # js) ! k)) \<noteq> None then 1 else 0)
           \<and> (v = Safe \<longrightarrow> sh' ! ((j # js) ! k * stride v + 4) = (if se then 1 else 0))"
      using head tail by (cases k) simp_all
  qed
  from len pre other untouched all show ?case by (intro conjI)
qed

lemma axis_step_active:
  assumes "axis_step now slave st = Inr (cw, tp, st')"
    and "trajectory st = Some tr"
    and "50000 \<le> \<bar>t_end tr - read_actual_position slave\<bar>"
  shows "trajectory st' = Some tr \<and> target_pulse st' = tp \<and> t_duration tr \<noteq> 0
     \<and> tp = interpolate tr (min ((now - t_start_time tr) / t_duration tr) 1)"
  using assms by (auto simp: axis_step_def Let_def split: if_splits)

lemma control_loop_axis:
  assumes "control_loop v se ins clock [0..<n] (ms, [], sh) = Inr (ms', frames, sh')"
    and "i < n"
  shows "\<exists>cw tp. axis_step (clock i) (ins ! i) (ms ! i) = Inr (cw, tp, ms' ! i)
           \<and> write_csp_outputs cw tp = Inr (frames ! i)
           \<and> sh' ! (i * stride v + 1) = (if trajectory (ms' ! i) \<noteq> None then 1 else 0)
           \<and> (v = Safe \<longrightarrow> sh' ! (i * stride v + 4) = (if se then 1 else 0))"
proof -
  have "sorted_wrt (<) [0..<n]" by simp
  from control_loop_result [OF assms(1) this] have
    "\<forall>k < length [0..<n]. \<exists>cw tp.
           axis_step (clock ([0..<n] ! k)) (ins ! ([0..<n] ! k)) (ms ! ([0..<n] ! k))
             = Inr (cw, tp, ms' ! ([0..<n] ! k))
           \<and> write_csp_outputs cw tp = Inr (frames ! (length ([] :: (16 word \<times> 32 word) list) + k))
           \<and> sh' ! ([0..<n] ! k * stride v + 1)
               = (if trajectory (ms' ! ([0..<n] ! k)) \<noteq> None then 1 else 0)
           \<and> (v = Safe \<longrightarrow> sh' ! ([0..<n] ! k * stride v + 4) = (if se then 1 else 0))"
    by blast
  from this [rule_format, of i] assms(2) show ?thesis by simp
qed

section \<open>The safety guards\<close>

lemma sync_abort_result:
  assumes "distinct js" and "\<forall>j \<in> set js. j < length ms"
  shows "length (sync_abort positions ms js) = length ms
     \<and> (\<forall>j. sync_abort positions ms js ! j
            = (if j \<in> set js then abort_axis (positions ! j) (ms ! j) else ms ! j))"
  using assms
proof (induction js arbitrary: ms)
  case Nil
  then show ?case by simp
next
  case (Cons i js)
  define ms1 where "ms1 = (if trajectory (ms ! i) \<noteq> None
        then ms[i := (ms ! i)\<lparr>trajectory := None, target_pulse := positions ! i\<rparr>] else ms)"
  have step: "sync_abort positions ms (i # js) = sync_abort positions ms1 js"
    by (simp add: ms1_def)
  have len1: "length ms1 = length ms" by (simp add: ms1_def)
  have i: "i < length ms" "i \<notin> set js" using Cons.prems by simp_all
  have ms1: "ms1 ! j = (if j = i then abort_axis (positions ! i) (ms ! i) else ms ! j)" for j
    using i(1) by (simp add: ms1_def abort_axis_def)
  from Cons.prems have "distinct js" "\<forall>j \<in> set js. j < length ms1" by (simp_all add: len1)
  from Cons.IH [OF this] have
    ih1: "length (sync_abort positions ms1 js) = length ms1" and
    ih2: "\<And>j. sync_abort positions ms1 js ! j
            = (if j \<in> set js then abort_axis (positions ! j) (ms1 ! j) else ms1 ! j)"
    by blast+
  show ?case unfolding step using ih1 ih2 len1 ms1 i(2) by auto
qed

lemma fault_scan_result:
  assumes "\<forall>j \<in> set js. j < length ms \<and> j < length ins"
  shows "fault_scan ins ms js
     = Inr (\<exists>i \<in> set js. read_status_word (ins ! i) AND 0x0008 \<noteq> 0 \<and> trajectory (ms ! i) \<noteq> None)"
  using assms by (induction js) auto

lemma fault_abort_result:
  assumes "distinct js" and "\<forall>j \<in> set js. j < length ms \<and> j < length ins"
  shows "\<exists>ms'. fault_abort ins ms js = Inr ms' \<and> length ms' = length ms
     \<and> (\<forall>j. ms' ! j
            = (if j \<in> set js then abort_axis (read_actual_position (ins ! j)) (ms ! j) else ms ! j))"
  using assms
proof (induction js arbitrary: ms)
  case Nil
  then show ?case by simp
next
  case (Cons i js)
  define ms1 where "ms1 = (if trajectory (ms ! i) \<noteq> None
        then ms[i := (ms ! i)\<lparr>trajectory := None,
                               target_pulse := read_actual_position (ins ! i)\<rparr>] else ms)"
  have i: "i < length ms" "i < length ins" "i \<notin> set js" using Cons.prems by simp_all
  have step: "fault_abort ins ms (i # js) = fault_abort ins ms1 js"
    using i by (simp add: ms1_def)
  have len1: "length ms1 = length ms" by (simp add: ms1_def)
  have ms1: "ms1 ! j = (if j = i then abort_axis (read_actual_position (ins ! i)) (ms ! i)
                        else ms ! j)" for j
    using i(1) by (simp add: ms1_def abort_axis_def)
  from Cons.prems have "distinct js" "\<forall>j \<in> set js. j < length ms1 \<and> j < length ins"
    by (simp_all add: len1)
  from Cons.IH [OF this] obtain ms' where
    ih0: "fault_abort ins ms1 js = Inr ms'" and
    ih1: "length ms' = length ms1" and
    ih2: "\<And>j. ms' ! j
            = (if j \<in> set js then abort_axis (read_actual_position (ins ! j)) (ms1 ! j)
               else ms1 ! j)"
    by blast
  have "\<forall>j. ms' ! j
            = (if j \<in> set (i # js) then abort_axis (read_actual_position (ins ! j)) (ms ! j)
               else ms ! j)"
    using ih2 ms1 i(3) by auto
  with step ih0 ih1 len1 show ?case by simp
qed


lemma abort_axis_simps:
  "trajectory (abort_axis p st) = None"
  "target_pulse (abort_axis p st) = (if trajectory st \<noteq> None then p else target_pulse st)"
  "offset (abort_axis p st) = offset st"
  "abort_axis p (abort_axis p st) = abort_axis p st"
  "trajectory st = None \<Longrightarrow> abort_axis p st = st"
  by (simp_all add: abort_axis_def)

lemma fault_guard_result:
  assumes "length ms = n" and "n \<le> length ins"
  shows "\<exists>ms'. fault_guard n ins ms = Inr ms' \<and> length ms' = n
     \<and> (\<forall>j < n. ms' ! j
           = (if \<exists>i < n. read_status_word (ins ! i) AND 0x0008 \<noteq> 0 \<and> trajectory (ms ! i) \<noteq> None
              then abort_axis (read_actual_position (ins ! j)) (ms ! j) else ms ! j))"
proof -
  define fault where
    "fault \<longleftrightarrow> (\<exists>i < n. read_status_word (ins ! i) AND 0x0008 \<noteq> 0 \<and> trajectory (ms ! i) \<noteq> None)"
  have idx: "\<forall>j \<in> set [0..<n]. j < length ms \<and> j < length ins" using assms by simp
  have scan: "fault_scan ins ms [0..<n] = Inr fault"
    using fault_scan_result [OF idx] by (simp add: Bex_def fault_def)
  have "distinct [0..<n]" by simp
  from fault_abort_result [OF this idx] obtain ms' where
    ab: "fault_abort ins ms [0..<n] = Inr ms'" "length ms' = length ms"
      "\<And>j. ms' ! j = (if j \<in> set [0..<n]
                        then abort_axis (read_actual_position (ins ! j)) (ms ! j) else ms ! j)"
    by blast
  have "\<exists>ms'. fault_guard n ins ms = Inr ms' \<and> length ms' = n
     \<and> (\<forall>j < n. ms' ! j
           = (if fault then abort_axis (read_actual_position (ins ! j)) (ms ! j) else ms ! j))"
  proof (cases fault)
    case True
    with scan ab assms(1) show ?thesis by (simp add: fault_guard_def)
  next
    case False
    with scan assms(1) show ?thesis by (simp add: fault_guard_def)
  qed
  then show ?thesis unfolding fault_def .
qed

lemma sync_guard_result:
  assumes "length (motors ls) = n" and "n \<le> length ins"
    and "trip \<longleftrightarrow> 2 \<le> n \<and> \<not> sync_error_detected ls
           \<and> (\<exists>i < n. trajectory (motors ls ! i) \<noteq> None)
           \<and> (\<exists>i < n - 1. \<bar>(read_actual_position (ins ! i) - offset (motors ls ! i))
                  - (read_actual_position (ins ! (i + 1)) - offset (motors ls ! (i + 1)))\<bar> > maxp)"
  shows "\<exists>ls'. sync_guard n maxp ins ls = Inr ls' \<and> length (motors ls') = n
     \<and> is_running ls' = is_running ls
     \<and> sync_error_detected ls' = (sync_error_detected ls \<or> trip)
     \<and> (\<forall>j < n. motors ls' ! j
           = (if trip then abort_axis (read_actual_position (ins ! j)) (motors ls ! j)
              else motors ls ! j))"
proof -
  define positions where "positions = map (\<lambda>i. read_actual_position (ins ! i)) [0..<n]"
  define rel where "rel = map (\<lambda>i. positions ! i - offset (motors ls ! i)) [0..<n]"
  have pos: "positions ! i = read_actual_position (ins ! i)" if "i < n" for i
    using that by (simp add: positions_def)
  have rel: "rel ! i = read_actual_position (ins ! i) - offset (motors ls ! i)" if "i < n" for i
    using that by (simp add: rel_def pos)
  have moving: "list_ex (\<lambda>i. trajectory (motors ls ! i) \<noteq> None) [0..<n]
      \<longleftrightarrow> (\<exists>i < n. trajectory (motors ls ! i) \<noteq> None)"
    by (auto simp: list_ex_iff)
  have pairs: "list_ex (\<lambda>i. \<bar>rel ! i - rel ! (i + 1)\<bar> > maxp) [0..<n - 1]
      \<longleftrightarrow> (\<exists>i < n - 1. \<bar>(read_actual_position (ins ! i) - offset (motors ls ! i))
                  - (read_actual_position (ins ! (i + 1)) - offset (motors ls ! (i + 1)))\<bar> > maxp)"
  proof -
    have "\<bar>rel ! i - rel ! (i + 1)\<bar>
        = \<bar>(read_actual_position (ins ! i) - offset (motors ls ! i))
                  - (read_actual_position (ins ! (i + 1)) - offset (motors ls ! (i + 1)))\<bar>"
      if "i < n - 1" for i
      using that rel [of i] rel [of "i + 1"] by simp
    then show ?thesis by (auto simp: list_ex_iff)
  qed
  have ab: "length (sync_abort positions (motors ls) [0..<n]) = length (motors ls)"
    "\<And>j. sync_abort positions (motors ls) [0..<n] ! j
            = (if j \<in> set [0..<n] then abort_axis (positions ! j) (motors ls ! j)
               else motors ls ! j)"
    using sync_abort_result [of "[0..<n]" "motors ls" positions] assms(1) by simp_all
  show ?thesis
  proof (cases trip)
    case True
    with assms(3) have t: "2 \<le> n" "\<not> sync_error_detected ls"
      "\<exists>i < n. trajectory (motors ls ! i) \<noteq> None"
      "\<exists>i < n - 1. \<bar>(read_actual_position (ins ! i) - offset (motors ls ! i))
                  - (read_actual_position (ins ! (i + 1)) - offset (motors ls ! (i + 1)))\<bar> > maxp"
      by simp_all
    have "sync_guard n maxp ins ls
        = Inr (ls\<lparr>sync_error_detected := True,
                  motors := sync_abort positions (motors ls) [0..<n]\<rparr>)"
      using t assms(1,2) moving pairs
      by (simp add: sync_guard_def Let_def positions_def [symmetric] rel_def [symmetric])
    with True ab assms(1) pos show ?thesis by simp
  next
    case False
    have "sync_guard n maxp ins ls = Inr ls"
      using False assms moving pairs
      by (auto simp: sync_guard_def Let_def positions_def [symmetric] rel_def [symmetric])
    with False assms(1) show ?thesis by simp
  qed
qed


lemma safety_pass_result:
  assumes len: "length (motors ls) = n" "n \<le> length ins"
    and trip: "trip \<longleftrightarrow> v = Safe \<and> 2 \<le> n \<and> \<not> sync_error_detected ls
           \<and> (\<exists>i < n. trajectory (motors ls ! i) \<noteq> None)
           \<and> (\<exists>i < n - 1. \<bar>(read_actual_position (ins ! i) - offset (motors ls ! i))
                  - (read_actual_position (ins ! (i + 1)) - offset (motors ls ! (i + 1)))\<bar> > maxp)"
    and fault: "fault \<longleftrightarrow> (\<exists>i < n. read_status_word (ins ! i) AND 0x0008 \<noteq> 0
                                \<and> trajectory (motors ls ! i) \<noteq> None)"
  shows "\<exists>ls'. safety_pass v n maxp ins ls = Inr ls' \<and> length (motors ls') = n
     \<and> is_running ls' = is_running ls
     \<and> sync_error_detected ls' = (sync_error_detected ls \<or> trip)
     \<and> (\<forall>j < n. motors ls' ! j
           = (if trip \<or> fault then abort_axis (read_actual_position (ins ! j)) (motors ls ! j)
              else motors ls ! j))"
proof -
  have first: "\<exists>ls1. (if v = Safe then sync_guard n maxp ins ls else Inr ls) = Inr ls1
     \<and> length (motors ls1) = n \<and> is_running ls1 = is_running ls
     \<and> sync_error_detected ls1 = (sync_error_detected ls \<or> trip)
     \<and> (\<forall>j < n. motors ls1 ! j
           = (if trip then abort_axis (read_actual_position (ins ! j)) (motors ls ! j)
              else motors ls ! j))"
  proof (cases "v = Safe")
    case True
    with trip have "trip \<longleftrightarrow> 2 \<le> n \<and> \<not> sync_error_detected ls
           \<and> (\<exists>i < n. trajectory (motors ls ! i) \<noteq> None)
           \<and> (\<exists>i < n - 1. \<bar>(read_actual_position (ins ! i) - offset (motors ls ! i))
                  - (read_actual_position (ins ! (i + 1)) - offset (motors ls ! (i + 1)))\<bar> > maxp)"
      by simp
    from sync_guard_result [OF len this] True show ?thesis by simp
  next
    case False
    with trip have "\<not> trip" by simp
    with False len show ?thesis by simp
  qed
  then obtain ls1 where
    g1: "(if v = Safe then sync_guard n maxp ins ls else Inr ls) = Inr ls1" and
    l1: "length (motors ls1) = n" and
    r1: "is_running ls1 = is_running ls" and
    f1: "sync_error_detected ls1 = (sync_error_detected ls \<or> trip)" and
    m1: "\<And>j. j < n \<Longrightarrow> motors ls1 ! j
           = (if trip then abort_axis (read_actual_position (ins ! j)) (motors ls ! j)
              else motors ls ! j)"
    by blast
  define fault1 where "fault1 \<longleftrightarrow> (\<exists>i < n. read_status_word (ins ! i) AND 0x0008 \<noteq> 0
                                \<and> trajectory (motors ls1 ! i) \<noteq> None)"
  from fault_guard_result [OF l1 len(2)] obtain ms2 where
    g2: "fault_guard n ins (motors ls1) = Inr ms2" and
    l2: "length ms2 = n" and
    m2: "\<And>j. j < n \<Longrightarrow> ms2 ! j
           = (if fault1 then abort_axis (read_actual_position (ins ! j)) (motors ls1 ! j)
              else motors ls1 ! j)"
    unfolding fault1_def by blast
  have same: "fault1 = fault" if "\<not> trip"
  proof -
    from that m1 have "motors ls1 ! i = motors ls ! i" if "i < n" for i
      using that by simp
    then show ?thesis unfolding fault1_def fault by auto
  qed
  have m: "ms2 ! j = (if trip \<or> fault
                      then abort_axis (read_actual_position (ins ! j)) (motors ls ! j)
                      else motors ls ! j)" if "j < n" for j
  proof (cases trip)
    case True
    with m1 [OF that] m2 [OF that] show ?thesis by (simp add: abort_axis_simps(4))
  next
    case False
    with m1 [OF that] m2 [OF that] same show ?thesis by simp
  qed
  have "safety_pass v n maxp ins ls = Inr (ls1\<lparr>motors := ms2\<rparr>)"
    using g1 g2 by (simp add: safety_pass_def)
  with l2 r1 f1 m show ?thesis by simp
qed

lemma control_loop_idle:
  assumes "distinct js"
    and "\<forall>j \<in> set js. j < length ms \<and> j < length ins \<and> j * stride v + stride v \<le> length sh
           \<and> trajectory (ms ! j) = None \<and> int32_ok (target_pulse (ms ! j))"
  shows "\<exists>r. control_loop v se ins clock js (ms, fr, sh) = Inr r"
  using assms
proof (induction js arbitrary: ms fr sh)
  case Nil
  then show ?case by simp
next
  case (Cons j js)
  from Cons.prems have j: "j < length ms" "j < length ins" "j * stride v + stride v \<le> length sh"
    "trajectory (ms ! j) = None" "int32_ok (target_pulse (ms ! j))" "j \<notin> set js"
    by simp_all
  define st' where "st' = (ms ! j)\<lparr>last_status := Some (read_status_word (ins ! j))\<rparr>"
  have "\<exists>sh1. publish v j (read_status_word (ins ! j)) st' (read_actual_position (ins ! j)) se sh
      = Inr sh1 \<and> length sh1 = length sh"
    using j(3) by (simp add: publish_def Let_def)
  then obtain sh1 where
    pub: "publish v j (read_status_word (ins ! j)) st' (read_actual_position (ins ! j)) se sh
      = Inr sh1" and lsh: "length sh1 = length sh"
    by blast
  have step: "control_axis v se ins (clock j) j (ms, fr, sh)
      = Inr (ms[j := st'],
             fr @ [(controlword (read_status_word (ins ! j)), word_of_int (target_pulse (ms ! j)))],
             sh1)"
    using j pub axis_step_idle [OF j(4), of "clock j" "ins ! j"]
    by (simp add: control_axis_def write_csp_outputs_def st'_def)
  have "distinct js" using Cons.prems by simp
  moreover have "\<forall>i \<in> set js. i < length (ms[j := st']) \<and> i < length ins
           \<and> i * stride v + stride v \<le> length sh1
           \<and> trajectory (ms[j := st'] ! i) = None \<and> int32_ok (target_pulse (ms[j := st'] ! i))"
  proof
    fix i assume i: "i \<in> set js"
    with j(6) have "i \<noteq> j" by auto
    then have "ms[j := st'] ! i = ms ! i" by simp
    with Cons.prems(2) i lsh show "i < length (ms[j := st']) \<and> i < length ins
           \<and> i * stride v + stride v \<le> length sh1
           \<and> trajectory (ms[j := st'] ! i) = None \<and> int32_ok (target_pulse (ms[j := st'] ! i))"
      by simp
  qed
  ultimately obtain r where
    "control_loop v se ins clock js
       (ms[j := st'],
        fr @ [(controlword (read_status_word (ins ! j)), word_of_int (target_pulse (ms ! j)))],
        sh1) = Inr r"
    using Cons.IH by blast
  with step have "control_loop v se ins clock (j # js) (ms, fr, sh) = Inr r" by simp
  then show ?case by (rule exI)
qed

lemma control_phase_aborted:
  assumes len: "length (motors ls) = n" "n \<le> length ins" "n * stride v \<le> length sh"
    and idle_ok: "\<forall>j < n. trajectory (motors ls ! j) = None
                    \<longrightarrow> int32_ok (target_pulse (motors ls ! j))"
    and trip: "trip \<longleftrightarrow> v = Safe \<and> 2 \<le> n \<and> \<not> sync_error_detected ls
           \<and> (\<exists>i < n. trajectory (motors ls ! i) \<noteq> None)
           \<and> (\<exists>i < n - 1. \<bar>(read_actual_position (ins ! i) - offset (motors ls ! i))
                  - (read_actual_position (ins ! (i + 1)) - offset (motors ls ! (i + 1)))\<bar> > maxp)"
    and fault: "fault \<longleftrightarrow> (\<exists>i < n. read_status_word (ins ! i) AND 0x0008 \<noteq> 0
                                \<and> trajectory (motors ls ! i) \<noteq> None)"
    and fired: "trip \<or> fault"
  shows "\<exists>ls' frames sh'. control_phase v n maxp ins clock ls sh = Inr (ls', frames, sh')
     \<and> sync_error_detected ls' = (sync_error_detected ls \<or> trip)
     \<and> (\<forall>j < n. trajectory (motors ls' ! j) = None
           \<and> target_pulse (motors ls' ! j)
               = (if trajectory (motors ls ! j) \<noteq> None then read_actual_position (ins ! j)
                  else target_pulse (motors ls ! j))
           \<and> sint (snd (frames ! j)) = target_pulse (motors ls' ! j)
           \<and> sh' ! (j * stride v + 1) = 0
           \<and> (v = Safe \<longrightarrow> sh' ! (j * stride v + 4)
                 = (if sync_error_detected ls \<or> trip then 1 else 0)))"
proof -
  from safety_pass_result [OF len(1,2) trip fault] fired obtain ls1 where
    sp: "safety_pass v n maxp ins ls = Inr ls1" and
    l1: "length (motors ls1) = n" and
    f1: "sync_error_detected ls1 = (sync_error_detected ls \<or> trip)" and
    m1: "\<And>j. j < n \<Longrightarrow> motors ls1 ! j
           = abort_axis (read_actual_position (ins ! j)) (motors ls ! j)"
    by auto
  have tr1: "trajectory (motors ls1 ! j) = None" if "j < n" for j
    using m1 [OF that] by (simp add: abort_axis_simps)
  have tp1: "target_pulse (motors ls1 ! j)
               = (if trajectory (motors ls ! j) \<noteq> None then read_actual_position (ins ! j)
                  else target_pulse (motors ls ! j))" if "j < n" for j
    using m1 [OF that] by (simp add: abort_axis_simps)
  have ok1: "int32_ok (target_pulse (motors ls1 ! j))" if "j < n" for j
    using tp1 [OF that] idle_ok that read_actual_position_range [of "ins ! j"]
    by (auto simp: int32_ok_def)
  have slot: "j * stride v + stride v \<le> length sh" if "j < n" for j
    using slot_below [OF that, of "stride v"] len(3) by simp
  have "\<forall>j \<in> set [0..<n]. j < length (motors ls1) \<and> j < length ins
           \<and> j * stride v + stride v \<le> length sh
           \<and> trajectory (motors ls1 ! j) = None \<and> int32_ok (target_pulse (motors ls1 ! j))"
    using l1 len(2) slot tr1 ok1 by simp
  from control_loop_idle [OF _ this, of "sync_error_detected ls1" clock "[]"]
  obtain ms3 frames sh' where
    cl: "control_loop v (sync_error_detected ls1) ins clock [0..<n] (motors ls1, [], sh)
           = Inr (ms3, frames, sh')"
    by (metis distinct_upt prod_cases3)
  have cp: "control_phase v n maxp ins clock ls sh = Inr (ls1\<lparr>motors := ms3\<rparr>, frames, sh')"
    using sp cl by (simp add: control_phase_def)
  have each: "trajectory (ms3 ! j) = None
           \<and> target_pulse (ms3 ! j)
               = (if trajectory (motors ls ! j) \<noteq> None then read_actual_position (ins ! j)
                  else target_pulse (motors ls ! j))
           \<and> sint (snd (frames ! j)) = target_pulse (ms3 ! j)
           \<and> sh' ! (j * stride v + 1) = 0
           \<and> (v = Safe \<longrightarrow> sh' ! (j * stride v + 4)
                 = (if sync_error_detected ls \<or> trip then 1 else 0))" if "j < n" for j
  proof -
    from control_loop_axis [OF cl that] obtain cw tp where
      st: "axis_step (clock j) (ins ! j) (motors ls1 ! j) = Inr (cw, tp, ms3 ! j)" and
      fr: "write_csp_outputs cw tp = Inr (frames ! j)" and
      mv: "sh' ! (j * stride v + 1) = (if trajectory (ms3 ! j) \<noteq> None then 1 else 0)" and
      sy: "v = Safe \<longrightarrow> sh' ! (j * stride v + 4)
             = (if sync_error_detected ls1 then 1 else 0)"
      by blast
    from axis_step_idle [OF tr1 [OF that], of "clock j" "ins ! j"] st
    have a: "tp = target_pulse (motors ls1 ! j)"
      "ms3 ! j = (motors ls1 ! j)\<lparr>last_status := Some (read_status_word (ins ! j))\<rparr>"
      by simp_all
    have b: "trajectory (ms3 ! j) = None" "target_pulse (ms3 ! j) = target_pulse (motors ls1 ! j)"
      using a(2) tr1 [OF that] by simp_all
    from write_csp_outputs_sint [OF fr] a(1) b(2)
    have c: "sint (snd (frames ! j)) = target_pulse (ms3 ! j)" by simp
    from b c mv sy f1 tp1 [OF that] show ?thesis by simp
  qed
  from cp f1 each show ?thesis by auto
qed

section \<open>Draining the command channel\<close>


lemma py_index_nonneg: "0 \<le> i \<Longrightarrow> i < int n \<Longrightarrow> py_index n i = Inr (nat i)"
  by (simp add: py_index_def)





section \<open>The batch of trajectories\<close>





















section \<open>Unit conversion under rounding\<close>

lemma rnd_err:
  assumes "double_rounding rnd" and "\<bar>x\<bar> \<le> B" and "B \<le> 100000000000"
  shows "\<bar>rnd x - x\<bar> \<le> (B + 1) / 2 ^ 53"
proof -
  have "(100000000000 :: real) \<le> 2 ^ 1023" by simp
  with assms(2,3) have "\<bar>x\<bar> \<le> 2 ^ 1023" by linarith
  with assms(1) have "\<bar>rnd x - x\<bar> \<le> \<bar>x\<bar> / 2 ^ 53 + 1 / 2 ^ 1075"
    by (simp add: double_rounding_def)
  also have "\<dots> \<le> B / 2 ^ 53 + 1 / 2 ^ 53"
    using assms(2) by (intro add_mono divide_right_mono) simp_all
  finally show ?thesis by (simp add: add_divide_distrib)
qed

lemma mm_per_rev_ge: "5 \<le> mm_per_rev ax"
  by (simp add: mm_per_rev_def x_axis_mm_per_rev_def z_axis_mm_per_rev_def)

lemma abs_mult_le:
  fixes x y :: real
  assumes "\<bar>x\<bar> \<le> a" and "\<bar>y\<bar> \<le> b"
  shows "\<bar>x * y\<bar> \<le> a * b"
proof -
  have "\<bar>x * y\<bar> = \<bar>x\<bar> * \<bar>y\<bar>" by (rule abs_mult)
  also have "\<dots> \<le> a * b" using assms by (intro mult_mono) simp_all
  finally show ?thesis .
qed

lemma round_trip_fl:
  assumes R: "double_rounding rnd" and m: "\<bar>m\<bar> \<le> 10000"
  shows "\<bar>current_position_mm_fl rnd ax
            (rnd (real_of_int (target_pulse_absolute_fl rnd ax 0 m))) (rnd 0) - m\<bar>
         < 1 / 1000000"
proof -
  define eps :: real where "eps = 1 / 2 ^ 53"
  have eps: "0 < eps" "eps \<le> 1 / 1000000000000000" by (simp_all add: eps_def)
  have E: "\<bar>rnd x - x\<bar> \<le> (B + 1) * eps" if "\<bar>x\<bar> \<le> B" "B \<le> 100000000000" for x B
    using rnd_err [OF R that] by (simp add: eps_def)
  define cf where "cf = rnd (mm_per_rev ax)"
  have "\<bar>mm_per_rev ax\<bar> \<le> 12"
    using mm_per_rev_pos [of ax] mm_per_rev_le [of ax] by simp
  from E [OF this] have "\<bar>cf - mm_per_rev ax\<bar> \<le> 13 * eps" by (simp add: cf_def)
  with eps mm_per_rev_ge [of ax] mm_per_rev_le [of ax] have cf: "4 \<le> cf" "cf \<le> 13"
    by linarith+
  define a where "a = m / cf"
  have a: "\<bar>a\<bar> \<le> 2500"
  proof -
    have "\<bar>a\<bar> = \<bar>m\<bar> / cf" using cf by (simp add: a_def)
    also have "\<dots> \<le> 10000 / 4" using m cf by (intro frac_le) simp_all
    finally show ?thesis by simp
  qed
  have am: "a * cf = m" using cf by (simp add: a_def)
  define q where "q = rnd a"
  from E [OF a] have q: "\<bar>q - a\<bar> \<le> 2501 * eps" by (simp add: q_def)
  with a eps have qb: "\<bar>q * 8388608\<bar> \<le> 20980000000" by linarith
  define y1 where "y1 = rnd (q * 8388608)"
  from E [OF qb] have "\<bar>y1 - q * 8388608\<bar> \<le> 20980000001 * eps" by (simp add: y1_def)
  with q have y1: "\<bar>y1 - a * 8388608\<bar> \<le> 41970000000 * eps" by linarith
  with a eps have y1b: "\<bar>y1 * 2\<bar> \<le> 41950000000" by linarith
  define y2 where "y2 = rnd (y1 * 2)"
  from E [OF y1b] have "\<bar>y2 - y1 * 2\<bar> \<le> 41950000001 * eps" by (simp add: y2_def)
  with y1 have y2: "\<bar>y2 - a * 16777216\<bar> \<le> 125900000000 * eps" by linarith
  define k where "k = py_int y2"
  have kdef: "target_pulse_absolute_fl rnd ax 0 m = k"
    by (simp add: target_pulse_absolute_fl_def target_pulse_relative_fl_def
        PULSES_PER_REVOLUTION_def k_def y2_def y1_def q_def a_def cf_def)
  define rk where "rk = real_of_int k"
  from py_int_close [of y2] have "\<bar>rk - y2\<bar> < 1" by (simp add: k_def rk_def)
  with y2 have k: "\<bar>rk - a * 16777216\<bar> < 1 + 125900000000 * eps" by linarith
  with a eps have kb: "\<bar>rk\<bar> \<le> 41950000000" by linarith
  define s0 where "s0 = rnd rk"
  from E [OF kb] have s0: "\<bar>s0 - rk\<bar> \<le> 41950000001 * eps" by (simp add: s0_def)
  define o0 where "o0 = rnd 0"
  have "\<bar>0 :: real\<bar> \<le> 0" by simp
  from E [OF this] have o0: "\<bar>o0\<bar> \<le> eps" by (simp add: o0_def)
  from s0 o0 kb eps have sb: "\<bar>s0 - o0\<bar> \<le> 41960000000" by linarith
  define r0 where "r0 = rnd (s0 - o0)"
  from E [OF sb] have "\<bar>r0 - (s0 - o0)\<bar> \<le> 41960000001 * eps" by (simp add: r0_def)
  with s0 o0 have r0: "\<bar>r0 - rk\<bar> \<le> 83920000000 * eps" by linarith
  with kb eps have r0b: "\<bar>r0 / 16777216\<bar> \<le> 2501" by linarith
  define r1 where "r1 = rnd (r0 / 16777216)"
  from E [OF r0b] have "\<bar>r1 - r0 / 16777216\<bar> \<le> 2502 * eps" by (simp add: r1_def)
  with r0 have r1: "\<bar>r1 - rk / 16777216\<bar> \<le> 7600 * eps" by linarith
  from r1 kb eps have r1b: "\<bar>r1\<bar> \<le> 2501" by linarith
  have cfa: "\<bar>cf\<bar> \<le> 13" using cf by simp
  from abs_mult_le [OF r1b cfa] have pb: "\<bar>r1 * cf\<bar> \<le> 32513" by simp
  define r2 where "r2 = rnd (r1 * cf)"
  from E [OF pb] have r2: "\<bar>r2 - r1 * cf\<bar> \<le> 32514 * eps" by (simp add: r2_def)
  have conv: "current_position_mm_fl rnd ax
            (rnd (real_of_int (target_pulse_absolute_fl rnd ax 0 m))) (rnd 0) = r2"
    by (simp add: current_position_mm_fl_def kdef PULSES_PER_REVOLUTION_def r2_def r1_def
        r0_def s0_def o0_def rk_def cf_def)
  have "\<bar>(r1 - rk / 16777216) * cf\<bar> \<le> (7600 * eps) * 13"
    using r1 cfa by (rule abs_mult_le)
  then have p1: "\<bar>r1 * cf - rk / 16777216 * cf\<bar> \<le> 98800 * eps"
    by (simp add: algebra_simps)
  have "rk / 16777216 - a = (rk - a * 16777216) / 16777216" by simp
  then have "\<bar>rk / 16777216 - a\<bar> = \<bar>rk - a * 16777216\<bar> / 16777216"
    by (simp only: abs_divide abs_numeral)
  also have "\<dots> \<le> (1 + 125900000000 * eps) / 16777216"
    using k by (intro divide_right_mono) simp_all
  finally have k16: "\<bar>rk / 16777216 - a\<bar> \<le> (1 + 125900000000 * eps) / 16777216" .
  have "\<bar>(rk / 16777216 - a) * cf\<bar> \<le> ((1 + 125900000000 * eps) / 16777216) * 13"
    using k16 cfa by (rule abs_mult_le)
  then have p2: "\<bar>rk / 16777216 * cf - m\<bar> \<le> ((1 + 125900000000 * eps) / 16777216) * 13"
    using am by (simp add: algebra_simps)
  define u where "u = r1 * cf"
  define w where "w = rk / 16777216 * cf"
  have b1: "\<bar>r2 - u\<bar> \<le> 32514 * eps" using r2 by (simp only: u_def)
  have b2: "\<bar>u - w\<bar> \<le> 98800 * eps" using p1 by (simp only: u_def w_def)
  have "(1 + 125900000000 * eps) / 16777216 * 13 \<le> 13 / 16777216 + 100000 * eps"
    using eps by simp
  with p2 have b3: "\<bar>w - m\<bar> \<le> 13 / 16777216 + 100000 * eps" by (simp only: w_def)
  from b1 b2 b3 eps have "\<bar>r2 - m\<bar> < 1 / 1000000" by linarith
  then show ?thesis by (simp only: conv)
qed

lemma exact_is_double_rounding: "double_rounding (\<lambda>x. x)"
  by (simp add: double_rounding_def)

lemma fl_exact:
  "target_pulse_absolute_fl (\<lambda>x. x) ax off mm = target_pulse_absolute ax off mm"
  "current_position_mm_fl (\<lambda>x. x) ax p off = current_position_mm ax p off"
  by (simp_all add: target_pulse_absolute_fl_def target_pulse_relative_fl_def
      target_pulse_absolute_def target_pulse_relative_def current_position_mm_fl_def
      current_position_mm_def)

section \<open>Claims\<close>

text \<open>
  C6. CiA 402 decoding. In both modules the controlword of the frame written to slave
  \<open>i\<close> in a cycle is \<open>controlword\<close> applied to the statusword read from slave \<open>i\<close> in that
  cycle, whatever the time, the other slaves and the motor states are. \<open>controlword\<close> is
  the chain 0x0006 / 0x0007 / 0x000F / 0x000F / 0x0080 / 0x000F of the claim, it is the one
  controlword that the table of section 4.2 allows for a statusword, for every 16-bit
  statusword, and a statusword with bit 3 set yields Fault-Reset 0x0080.
\<close>

theorem C6_controlword_decoding:
  "(control_phase v n maxp ins clock ls sh = Inr (ls', frames, sh') \<longrightarrow>
      length frames = n
      \<and> (\<forall>i < n. fst (frames ! i) = controlword (read_status_word (ins ! i))))
   \<and> controlword sw =
       (if sw AND 0x004F = 0x0040 then 0x0006
        else if sw AND 0x006F = 0x0021 then 0x0007
        else if sw AND 0x006F = 0x0023 \<or> sw AND 0x006F = 0x0027 then 0x000F
        else if sw AND 0x0008 \<noteq> 0 then 0x0080
        else 0x000F)
   \<and> (\<forall>cw. spec_row sw cw \<longleftrightarrow> cw = controlword sw)
   \<and> (sw AND 0x0008 \<noteq> 0 \<longrightarrow> controlword sw = 0x0080)"
proof -
  have frames: "control_phase v n maxp ins clock ls sh = Inr (ls', frames, sh') \<longrightarrow>
      length frames = n
      \<and> (\<forall>i < n. fst (frames ! i) = controlword (read_status_word (ins ! i)))"
    using control_phase_frames by blast
  have chain: "controlword sw =
       (if sw AND 0x004F = 0x0040 then 0x0006
        else if sw AND 0x006F = 0x0021 then 0x0007
        else if sw AND 0x006F = 0x0023 \<or> sw AND 0x006F = 0x0027 then 0x000F
        else if sw AND 0x0008 \<noteq> 0 then 0x0080
        else 0x000F)"
    by (simp add: controlword_def CW_SHUTDOWN_def CW_SWITCH_ON_def CW_ENABLE_OPERATION_def
        CW_FAULT_RESET_def)
  have table: "\<forall>cw. spec_row sw cw \<longleftrightarrow> cw = controlword sw"
    using spec_row_functional by blast
  have fault: "sw AND 0x0008 \<noteq> 0 \<longrightarrow> controlword sw = 0x0080"
    using fault_bit_controlword by blast
  from frames chain table fault show ?thesis by (intro conjI)
qed

theorem C6_controlword_decoding_witness:
  "control_phase Baseline 1 0 [\<lparr>statusword = 0x0008, position_actual = 0\<rparr>] (\<lambda>i. 0)
       (initial_loop_state 1) [0, 0, 0, 0]
     = Inr (\<lparr>motors = [initial_motor_state\<lparr>last_status := Some 0x0008\<rparr>], is_running = True,
             sync_error_detected = False\<rparr>, [(0x0080, 0)], [8, 0, 0, 0])
   \<and> fst ([(0x0080 :: 16 word, 0 :: 32 word)] ! 0)
       = controlword (read_status_word \<lparr>statusword = 0x0008, position_actual = 0\<rparr>)
   \<and> (0x0008 :: 16 word) AND 0x0008 \<noteq> 0 \<and> controlword 0x0008 = 0x0080"
proof -
  have run: "control_phase Baseline 1 0 [\<lparr>statusword = 0x0008, position_actual = 0\<rparr>] (\<lambda>i. 0)
       (initial_loop_state 1) [0, 0, 0, 0]
     = Inr (\<lparr>motors = [initial_motor_state\<lparr>last_status := Some 0x0008\<rparr>], is_running = True,
             sync_error_detected = False\<rparr>, [(0x0080, 0)], [8, 0, 0, 0])"
    by (simp add: control_phase_def safety_pass_def fault_guard_def control_axis_def axis_step_def publish_def
        stride_def write_csp_outputs_def int32_ok_def read_status_word_def read_actual_position_def
        controlword_def CW_FAULT_RESET_def initial_loop_state_def initial_motor_state_def)
  have bit: "(0x0008 :: 16 word) AND 0x0008 \<noteq> 0" by simp
  from C6_controlword_decoding
    [of Baseline 1 0 "[\<lparr>statusword = 0x0008, position_actual = 0\<rparr>]" "\<lambda>i. 0"
      "initial_loop_state 1" "[0, 0, 0, 0]" _ "[(0x0080, 0)]" "[8, 0, 0, 0]" "0x0008"]
    run bit
  show ?thesis by simp
qed

section \<open>Unit conversion\<close>





lemma round_trip_exact:
  assumes "\<bar>m\<bar> \<le> 10000"
  shows "\<bar>current_position_mm ax (real_of_int (target_pulse_absolute ax 0 m)) 0 - m\<bar>
           < 1 / 1000000"
proof -
  define c :: real where "c = mm_per_rev ax"
  define y :: real where "y = m / c * 8388608 * 2"
  define k :: int where "k = py_int y"
  have cpos: "0 < c" and cle: "c \<le> 12"
    unfolding c_def by (rule mm_per_rev_pos) (rule mm_per_rev_le)
  have conv: "current_position_mm ax (real_of_int (target_pulse_absolute ax 0 m)) 0
      = real_of_int k / 16777216 * c"
    by (simp add: current_position_mm_def target_pulse_absolute_def target_pulse_relative_def
        PULSES_PER_REVOLUTION_def Let_def k_def y_def c_def)
  have m_eq: "m = y / 16777216 * c" using cpos by (simp add: y_def)
  have "real_of_int k / 16777216 * c - m = (real_of_int k - y) * (c / 16777216)"
    by (subst m_eq) (simp add: algebra_simps)
  then have "\<bar>real_of_int k / 16777216 * c - m\<bar> = \<bar>(real_of_int k - y) * (c / 16777216)\<bar>"
    by (rule arg_cong)
  also have "\<dots> = \<bar>real_of_int k - y\<bar> * (c / 16777216)"
    using cpos by (simp only: abs_mult abs_of_pos divide_pos_pos zero_less_numeral)
  also have "\<dots> \<le> \<bar>real_of_int k - y\<bar> * (12 / 16777216)"
    using cle by (intro mult_left_mono) simp_all
  also have "\<dots> < 1 * (12 / 16777216)"
    using py_int_close [of y] by (intro mult_strict_right_mono) (simp_all add: k_def)
  also have "\<dots> < 1 / 1000000" by simp
  finally show ?thesis by (simp only: conv)
qed

text \<open>
  C10. Round trip of the unit conversion. For every axis tag and every \<open>m\<close> with
  \<open>|m| \<le> 10000\<close>, the pulse target of a move to \<open>m\<close> millimetres with origin offset
  0, read back the way \<^verbatim>\<open>current_position_mm\<close> does with offset 0, is less than
  \<open>10\<^sup>-\<^sup>6\<close> mm away from \<open>m\<close>: in exact arithmetic, and also when every float
  operation and every value stored in the shared state block is rounded as IEEE 754
  doubles are.
\<close>

theorem C10_unit_conversion_round_trip:
  assumes "\<bar>m\<bar> \<le> 10000"
  shows "\<bar>current_position_mm ax (real_of_int (target_pulse_absolute ax 0 m)) 0 - m\<bar>
           < 1 / 1000000
     \<and> (double_rounding rnd \<longrightarrow>
          \<bar>current_position_mm_fl rnd ax
              (rnd (real_of_int (target_pulse_absolute_fl rnd ax 0 m))) (rnd 0) - m\<bar>
            < 1 / 1000000)"
  using round_trip_exact [OF assms] round_trip_fl [OF _ assms] by blast

theorem C10_unit_conversion_round_trip_witness:
  "\<bar>50 :: real\<bar> \<le> 10000
   \<and> target_pulse_absolute ''z'' 0 50 = 139818136
   \<and> \<bar>current_position_mm ''z'' (real_of_int (target_pulse_absolute ''z'' 0 50)) 0 - 50\<bar>
       < 1 / 1000000
   \<and> double_rounding (\<lambda>x. x)
   \<and> \<bar>current_position_mm_fl (\<lambda>x. x) ''z''
          (real_of_int (target_pulse_absolute_fl (\<lambda>x. x) ''z'' 0 50)) 0 - 50\<bar>
       < 1 / 1000000"
proof -
  have h: "\<bar>50 :: real\<bar> \<le> 10000" by simp
  have v: "target_pulse_absolute ''z'' 0 50 = 139818136"
    by (simp add: target_pulse_absolute_def target_pulse_relative_def mm_per_rev_def
        z_axis_mm_per_rev_def PULSES_PER_REVOLUTION_def py_int_def)
  note r = exact_is_double_rounding
  from C10_unit_conversion_round_trip [OF h, of "''z''" "\<lambda>x. x"] h v r
  show ?thesis by simp
qed

section \<open>Completion and interpolation\<close>

text \<open>
  C7. Position-based completion, in the loop over the slaves of a cycle (both modules),
  for a slave \<open>i\<close> whose trajectory \<open>tr\<close> is active when its control step runs and with
  \<open>actual\<close> the position read in this cycle. If \<open>|end - actual| < 50000\<close>, the cycle
  clears the trajectory, stores \<open>end\<close> as target pulses, writes \<open>end\<close> into the output
  frame and publishes the moving flag 0. If \<open>|end - actual| \<ge> 50000\<close>, the trajectory
  stays as it is and the published moving flag is 1, whatever the clock reads; the step
  then returns for every clock reading as long as the duration is not zero. The control
  step never creates a trajectory: an axis without one has none afterwards.
\<close>

theorem C7_position_based_completion:
  assumes run: "control_loop v se ins clock [0..<n] (ms, [], sh) = Inr (ms', frames, sh')"
    and i: "i < n"
  shows "(\<forall>tr. trajectory (ms ! i) = Some tr
             \<and> \<bar>t_end tr - read_actual_position (ins ! i)\<bar> < 50000 \<longrightarrow>
            trajectory (ms' ! i) = None \<and> target_pulse (ms' ! i) = t_end tr
            \<and> sint (snd (frames ! i)) = t_end tr \<and> sh' ! (i * stride v + 1) = 0)
     \<and> (\<forall>tr. trajectory (ms ! i) = Some tr
             \<and> 50000 \<le> \<bar>t_end tr - read_actual_position (ins ! i)\<bar> \<longrightarrow>
            trajectory (ms' ! i) = Some tr \<and> sh' ! (i * stride v + 1) = 1
            \<and> (\<forall>now. t_duration tr \<noteq> 0 \<longrightarrow>
                  (\<exists>cw tp st'. axis_step now (ins ! i) (ms ! i) = Inr (cw, tp, st')
                      \<and> trajectory st' = Some tr)))
     \<and> (trajectory (ms ! i) = None \<longrightarrow>
            trajectory (ms' ! i) = None \<and> sh' ! (i * stride v + 1) = 0)"
proof -
  from control_loop_axis [OF run i] obtain cw tp where
    step: "axis_step (clock i) (ins ! i) (ms ! i) = Inr (cw, tp, ms' ! i)" and
    frame: "write_csp_outputs cw tp = Inr (frames ! i)" and
    flag: "sh' ! (i * stride v + 1) = (if trajectory (ms' ! i) \<noteq> None then 1 else 0)"
    by blast
  have completes: "trajectory (ms' ! i) = None \<and> target_pulse (ms' ! i) = t_end tr
            \<and> sint (snd (frames ! i)) = t_end tr \<and> sh' ! (i * stride v + 1) = 0"
    if "trajectory (ms ! i) = Some tr"
      and "\<bar>t_end tr - read_actual_position (ins ! i)\<bar> < 50000" for tr
  proof -
    from axis_step_complete [OF that, of "clock i"] step
    have "tp = t_end tr" and st: "trajectory (ms' ! i) = None" "target_pulse (ms' ! i) = t_end tr"
      by auto
    with write_csp_outputs_sint [OF frame] flag show ?thesis by simp
  qed
  have active: "trajectory (ms' ! i) = Some tr \<and> sh' ! (i * stride v + 1) = 1
            \<and> (\<forall>now. t_duration tr \<noteq> 0 \<longrightarrow>
                  (\<exists>cw tp st'. axis_step now (ins ! i) (ms ! i) = Inr (cw, tp, st')
                      \<and> trajectory st' = Some tr))"
    if "trajectory (ms ! i) = Some tr"
      and "50000 \<le> \<bar>t_end tr - read_actual_position (ins ! i)\<bar>" for tr
  proof -
    from axis_step_active [OF step that] have "trajectory (ms' ! i) = Some tr" by simp
    moreover from this flag have "sh' ! (i * stride v + 1) = 1" by simp
    moreover have "\<exists>cw tp st'. axis_step now (ins ! i) (ms ! i) = Inr (cw, tp, st')
                      \<and> trajectory st' = Some tr" if "t_duration tr \<noteq> 0" for now
      using axis_step_continue [OF \<open>trajectory (ms ! i) = Some tr\<close>
          \<open>50000 \<le> \<bar>t_end tr - read_actual_position (ins ! i)\<bar>\<close> that, of now]
        \<open>trajectory (ms ! i) = Some tr\<close>
      by simp
    ultimately show ?thesis by blast
  qed
  have idle: "trajectory (ms' ! i) = None \<and> sh' ! (i * stride v + 1) = 0"
    if "trajectory (ms ! i) = None"
  proof -
    from axis_step_idle [OF that, of "clock i" "ins ! i"] step
    have "trajectory (ms' ! i) = None" using that by auto
    with flag show ?thesis by simp
  qed
  from completes active idle show ?thesis by blast
qed

theorem C7_position_based_completion_witness:
  "control_loop Safe False [\<lparr>statusword = 0x0027, position_actual = 60000\<rparr>] (\<lambda>i. 2) [0..<1]
       ([moving_motor], [], [0, 0, 0, 0, 0])
     = Inr ([moving_motor\<lparr>last_status := Some 0x0027, target_pulse := 100000,
                          trajectory := None\<rparr>],
            [(0x000F, 100000)], [39, 0, 60000, 0, 0])
   \<and> (trajectory ([moving_motor\<lparr>last_status := Some 0x0027, target_pulse := 100000,
                          trajectory := None\<rparr>] ! 0) = None
      \<and> target_pulse ([moving_motor\<lparr>last_status := Some 0x0027, target_pulse := 100000,
                          trajectory := None\<rparr>] ! 0) = t_end example_traj
      \<and> sint (snd ([(0x000F :: 16 word, 100000 :: 32 word)] ! 0)) = t_end example_traj
      \<and> [39, 0, 60000, 0, 0 :: real] ! (0 * stride Safe + 1) = 0)"
proof -
  have run: "control_loop Safe False [\<lparr>statusword = 0x0027, position_actual = 60000\<rparr>]
       (\<lambda>i. 2) [0..<1] ([moving_motor], [], [0, 0, 0, 0, 0])
     = Inr ([moving_motor\<lparr>last_status := Some 0x0027, target_pulse := 100000,
                          trajectory := None\<rparr>],
            [(0x000F, 100000)], [39, 0, 60000, 0, 0])"
    by (simp add: control_axis_def axis_step_def publish_def stride_def write_csp_outputs_def
        int32_ok_def read_status_word_def read_actual_position_def controlword_def CW_ENABLE_OPERATION_def
        moving_motor_def example_traj_def initial_motor_state_def)
  have near: "trajectory ([moving_motor] ! 0) = Some example_traj
      \<and> \<bar>t_end example_traj
          - read_actual_position ([\<lparr>statusword = 0x0027, position_actual = 60000\<rparr>] ! 0)\<bar> < 50000"
    by (simp add: moving_motor_def example_traj_def read_actual_position_def)
  have i: "(0 :: nat) < 1" by simp
  note C7_position_based_completion [OF run i, THEN conjunct1, rule_format, OF near]
  with run show ?thesis by (rule conjI)
qed



section \<open>Safety supervisor\<close>

text \<open>
  C3. Sync-error guard. In the safe module with at least two slaves, no sync error
  flagged and at least one axis with a trajectory, if some adjacent pair \<open>(i, i+1)\<close> has
  \<open>|(actual\<^sub>i - offset\<^sub>i) - (actual\<^sub>i\<^sub>+\<^sub>1 - offset\<^sub>i\<^sub>+\<^sub>1)|\<close> above the threshold, the cycle runs to
  its end and leaves the sync-error flag set (also in the shared state block), every
  trajectory cleared, and every aborted axis with its actual position as target pulses
  and in its output frame. The threshold is
  \<open>int(max_sync_error_mm / 5.99965657019 * 8388608 * 2)\<close>. The hypotheses on the list
  lengths, the size of the shared block and the 32-bit range of the targets of the
  idle axes hold in every cycle the loop reaches.
\<close>

theorem C3_sync_error_guard:
  assumes len: "length (motors ls) = n" "n \<le> length ins" "n * stride Safe \<le> length sh"
    and idle_ok: "\<forall>j < n. trajectory (motors ls ! j) = None
                    \<longrightarrow> int32_ok (target_pulse (motors ls ! j))"
    and n2: "2 \<le> n"
    and noerr: "\<not> sync_error_detected ls"
    and moving: "\<exists>i < n. trajectory (motors ls ! i) \<noteq> None"
    and apart: "\<exists>i < n - 1. \<bar>(read_actual_position (ins ! i) - offset (motors ls ! i))
                  - (read_actual_position (ins ! (i + 1)) - offset (motors ls ! (i + 1)))\<bar>
                > max_sync_error_pulse max_sync_error_mm"
  shows "(\<exists>ls' frames sh'.
        control_phase Safe n (max_sync_error_pulse max_sync_error_mm) ins clock ls sh
          = Inr (ls', frames, sh')
        \<and> sync_error_detected ls'
        \<and> (\<forall>j < n. trajectory (motors ls' ! j) = None
              \<and> sh' ! (j * stride Safe + 1) = 0 \<and> sh' ! (j * stride Safe + 4) = 1
              \<and> (trajectory (motors ls ! j) \<noteq> None \<longrightarrow>
                    target_pulse (motors ls' ! j) = read_actual_position (ins ! j)
                    \<and> sint (snd (frames ! j)) = read_actual_position (ins ! j))))
     \<and> max_sync_error_pulse max_sync_error_mm
         = py_int (max_sync_error_mm / (599965657019 / 100000000000) * 8388608 * 2)"
proof -
  have fired: "(Safe = Safe \<and> 2 \<le> n \<and> \<not> sync_error_detected ls
           \<and> (\<exists>i < n. trajectory (motors ls ! i) \<noteq> None)
           \<and> (\<exists>i < n - 1. \<bar>(read_actual_position (ins ! i) - offset (motors ls ! i))
                  - (read_actual_position (ins ! (i + 1)) - offset (motors ls ! (i + 1)))\<bar>
                > max_sync_error_pulse max_sync_error_mm))
        \<or> (\<exists>i < n. read_status_word (ins ! i) AND 0x0008 \<noteq> 0
                                \<and> trajectory (motors ls ! i) \<noteq> None)"
    using n2 noerr moving apart by blast
  from control_phase_aborted [OF len idle_ok refl refl fired, of clock]
  obtain ls' frames sh' where
    r: "control_phase Safe n (max_sync_error_pulse max_sync_error_mm) ins clock ls sh
          = Inr (ls', frames, sh')" and
    f: "sync_error_detected ls'" and
    a: "\<And>j. j < n \<Longrightarrow> trajectory (motors ls' ! j) = None
           \<and> target_pulse (motors ls' ! j)
               = (if trajectory (motors ls ! j) \<noteq> None then read_actual_position (ins ! j)
                  else target_pulse (motors ls ! j))
           \<and> sint (snd (frames ! j)) = target_pulse (motors ls' ! j)
           \<and> sh' ! (j * stride Safe + 1) = 0
           \<and> sh' ! (j * stride Safe + 4) = 1"
    using n2 noerr moving apart by auto
  have "\<forall>j < n. trajectory (motors ls' ! j) = None
              \<and> sh' ! (j * stride Safe + 1) = 0 \<and> sh' ! (j * stride Safe + 4) = 1
              \<and> (trajectory (motors ls ! j) \<noteq> None \<longrightarrow>
                    target_pulse (motors ls' ! j) = read_actual_position (ins ! j)
                    \<and> sint (snd (frames ! j)) = read_actual_position (ins ! j))"
    using a by auto
  moreover have "max_sync_error_pulse max_sync_error_mm
         = py_int (max_sync_error_mm / (599965657019 / 100000000000) * 8388608 * 2)"
    by (simp add: max_sync_error_pulse_def z_axis_mm_per_rev_def PULSES_PER_REVOLUTION_def)
  ultimately show ?thesis using r f by blast
qed

text \<open>
  C4. Fault guard, in both modules. If an axis with a trajectory shows statusword bit 3,
  the cycle runs to its end and leaves every trajectory cleared (moving flag 0 for every
  slave), and every axis that had a trajectory, faulting or not, has its actual
  position as target pulses and in its output frame.
\<close>

theorem C4_fault_guard:
  assumes len: "length (motors ls) = n" "n \<le> length ins" "n * stride v \<le> length sh"
    and idle_ok: "\<forall>j < n. trajectory (motors ls ! j) = None
                    \<longrightarrow> int32_ok (target_pulse (motors ls ! j))"
    and fault: "\<exists>i < n. trajectory (motors ls ! i) \<noteq> None
                  \<and> read_status_word (ins ! i) AND 0x0008 \<noteq> 0"
  shows "\<exists>ls' frames sh'. control_phase v n maxp ins clock ls sh = Inr (ls', frames, sh')
        \<and> (\<forall>j < n. trajectory (motors ls' ! j) = None \<and> sh' ! (j * stride v + 1) = 0
              \<and> (trajectory (motors ls ! j) \<noteq> None \<longrightarrow>
                    target_pulse (motors ls' ! j) = read_actual_position (ins ! j)
                    \<and> sint (snd (frames ! j)) = read_actual_position (ins ! j)))"
proof -
  have fired: "(v = Safe \<and> 2 \<le> n \<and> \<not> sync_error_detected ls
           \<and> (\<exists>i < n. trajectory (motors ls ! i) \<noteq> None)
           \<and> (\<exists>i < n - 1. \<bar>(read_actual_position (ins ! i) - offset (motors ls ! i))
                  - (read_actual_position (ins ! (i + 1)) - offset (motors ls ! (i + 1)))\<bar>
                > maxp))
        \<or> (\<exists>i < n. read_status_word (ins ! i) AND 0x0008 \<noteq> 0
                                \<and> trajectory (motors ls ! i) \<noteq> None)"
    using fault by blast
  from control_phase_aborted [OF len idle_ok refl refl fired, of clock]
  obtain ls' frames sh' where
    r: "control_phase v n maxp ins clock ls sh = Inr (ls', frames, sh')" and
    a: "\<And>j. j < n \<Longrightarrow> trajectory (motors ls' ! j) = None
           \<and> target_pulse (motors ls' ! j)
               = (if trajectory (motors ls ! j) \<noteq> None then read_actual_position (ins ! j)
                  else target_pulse (motors ls ! j))
           \<and> sint (snd (frames ! j)) = target_pulse (motors ls' ! j)
           \<and> sh' ! (j * stride v + 1) = 0"
    by blast
  have "\<forall>j < n. trajectory (motors ls' ! j) = None \<and> sh' ! (j * stride v + 1) = 0
              \<and> (trajectory (motors ls ! j) \<noteq> None \<longrightarrow>
                    target_pulse (motors ls' ! j) = read_actual_position (ins ! j)
                    \<and> sint (snd (frames ! j)) = read_actual_position (ins ! j))"
    using a by auto
  with r show ?thesis by blast
qed

theorem C3_sync_error_guard_witness:
  "(\<exists>ls' frames sh'.
      control_phase Safe 2 (max_sync_error_pulse (1 / 2)) diverged_inputs (\<lambda>i. 1) two_moving
          (replicate 10 0)
        = Inr (ls', frames, sh')
      \<and> sync_error_detected ls'
      \<and> trajectory (motors ls' ! 0) = None \<and> trajectory (motors ls' ! 1) = None
      \<and> target_pulse (motors ls' ! 0) = 0 \<and> target_pulse (motors ls' ! 1) = 2000000
      \<and> sint (snd (frames ! 1)) = 2000000
      \<and> sh' ! 4 = 1 \<and> sh' ! 9 = 1)
   \<and> max_sync_error_pulse (1 / 2) = 1398181"
proof -
  have thr: "max_sync_error_pulse (1 / 2) = 1398181"
    by (simp add: max_sync_error_pulse_def z_axis_mm_per_rev_def PULSES_PER_REVOLUTION_def
        py_int_def)
  have h1: "length (motors two_moving) = 2" by (simp add: two_moving_def)
  have h2: "2 \<le> length diverged_inputs" by (simp add: diverged_inputs_def)
  have h3: "2 * stride Safe \<le> length (replicate 10 (0 :: real))" by (simp add: stride_def)
  have act: "trajectory (motors two_moving ! j) = Some example_traj" if "j < 2" for j
    using that by (cases j) (simp_all add: two_moving_def moving_motor_def)
  have h4: "\<forall>j < 2. trajectory (motors two_moving ! j) = None
                    \<longrightarrow> int32_ok (target_pulse (motors two_moving ! j))"
    using act by simp
  have h5: "(2 :: nat) \<le> 2" by simp
  have h6: "\<not> sync_error_detected two_moving" by (simp add: two_moving_def)
  have h7: "\<exists>i < 2. trajectory (motors two_moving ! i) \<noteq> None"
    using act [of 0] by (intro exI [of _ 0]) simp
  have "\<bar>(read_actual_position (diverged_inputs ! 0) - offset (motors two_moving ! 0))
          - (read_actual_position (diverged_inputs ! (0 + 1))
             - offset (motors two_moving ! (0 + 1)))\<bar>
        > max_sync_error_pulse (1 / 2)"
    by (simp add: thr diverged_inputs_def two_moving_def moving_motor_def
        initial_motor_state_def read_actual_position_def)
  then have h8: "\<exists>i < 2 - 1.
      \<bar>(read_actual_position (diverged_inputs ! i) - offset (motors two_moving ! i))
          - (read_actual_position (diverged_inputs ! (i + 1))
             - offset (motors two_moving ! (i + 1)))\<bar>
        > max_sync_error_pulse (1 / 2)"
    by (intro exI [of _ 0]) simp
  from C3_sync_error_guard [OF h1 h2 h3 h4 h5 h6 h7 h8, of "\<lambda>i. 1"]
  obtain ls' frames sh' where
    r: "control_phase Safe 2 (max_sync_error_pulse (1 / 2)) diverged_inputs (\<lambda>i. 1) two_moving
          (replicate 10 0) = Inr (ls', frames, sh')" "sync_error_detected ls'" and
    a: "\<And>j. j < 2 \<Longrightarrow> trajectory (motors ls' ! j) = None
              \<and> sh' ! (j * stride Safe + 1) = 0 \<and> sh' ! (j * stride Safe + 4) = 1
              \<and> (trajectory (motors two_moving ! j) \<noteq> None \<longrightarrow>
                    target_pulse (motors ls' ! j) = read_actual_position (diverged_inputs ! j)
                    \<and> sint (snd (frames ! j)) = read_actual_position (diverged_inputs ! j))"
    by blast
  have p: "read_actual_position (diverged_inputs ! 0) = 0"
    "read_actual_position (diverged_inputs ! 1) = 2000000"
    by (simp_all add: diverged_inputs_def read_actual_position_def)
  from a [of 0] a [of 1] act [of 0] act [of 1] p
  have "trajectory (motors ls' ! 0) = None \<and> trajectory (motors ls' ! 1) = None
      \<and> target_pulse (motors ls' ! 0) = 0 \<and> target_pulse (motors ls' ! 1) = 2000000
      \<and> sint (snd (frames ! 1)) = 2000000
      \<and> sh' ! 4 = 1 \<and> sh' ! 9 = 1"
    by (simp add: stride_def)
  with r thr show ?thesis by blast
qed

theorem C4_fault_guard_witness:
  "\<exists>ls' frames sh'.
      control_phase Baseline 2 0 faulted_inputs (\<lambda>i. 1) two_moving (replicate 8 0)
        = Inr (ls', frames, sh')
      \<and> trajectory (motors ls' ! 0) = None \<and> trajectory (motors ls' ! 1) = None
      \<and> target_pulse (motors ls' ! 0) = 1000 \<and> target_pulse (motors ls' ! 1) = 70000
      \<and> sint (snd (frames ! 0)) = 1000 \<and> sint (snd (frames ! 1)) = 70000
      \<and> sh' ! 1 = 0 \<and> sh' ! 5 = 0"
proof -
  have h1: "length (motors two_moving) = 2" by (simp add: two_moving_def)
  have h2: "2 \<le> length faulted_inputs" by (simp add: faulted_inputs_def)
  have h3: "2 * stride Baseline \<le> length (replicate 8 (0 :: real))" by (simp add: stride_def)
  have act: "trajectory (motors two_moving ! j) = Some example_traj" if "j < 2" for j
    using that by (cases j) (simp_all add: two_moving_def moving_motor_def)
  have h4: "\<forall>j < 2. trajectory (motors two_moving ! j) = None
                    \<longrightarrow> int32_ok (target_pulse (motors two_moving ! j))"
    using act by simp
  have "trajectory (motors two_moving ! 1) \<noteq> None
      \<and> read_status_word (faulted_inputs ! 1) AND 0x0008 \<noteq> 0"
    using act [of 1] by (simp add: faulted_inputs_def read_status_word_def)
  then have h5: "\<exists>i < 2. trajectory (motors two_moving ! i) \<noteq> None
                  \<and> read_status_word (faulted_inputs ! i) AND 0x0008 \<noteq> 0"
    by (intro exI [of _ 1]) simp
  from C4_fault_guard [OF h1 h2 h3 h4 h5, of 0 "\<lambda>i. 1"]
  obtain ls' frames sh' where
    r: "control_phase Baseline 2 0 faulted_inputs (\<lambda>i. 1) two_moving (replicate 8 0)
          = Inr (ls', frames, sh')" and
    a: "\<And>j. j < 2 \<Longrightarrow> trajectory (motors ls' ! j) = None
              \<and> sh' ! (j * stride Baseline + 1) = 0
              \<and> (trajectory (motors two_moving ! j) \<noteq> None \<longrightarrow>
                    target_pulse (motors ls' ! j) = read_actual_position (faulted_inputs ! j)
                    \<and> sint (snd (frames ! j)) = read_actual_position (faulted_inputs ! j))"
    by blast
  have p: "read_actual_position (faulted_inputs ! 0) = 1000"
    "read_actual_position (faulted_inputs ! 1) = 70000"
    by (simp_all add: faulted_inputs_def read_actual_position_def)
  from a [of 0] a [of 1] act [of 0] act [of 1] p
  have "trajectory (motors ls' ! 0) = None \<and> trajectory (motors ls' ! 1) = None
      \<and> target_pulse (motors ls' ! 0) = 1000 \<and> target_pulse (motors ls' ! 1) = 70000
      \<and> sint (snd (frames ! 0)) = 1000 \<and> sint (snd (frames ! 1)) = 70000
      \<and> sh' ! 1 = 0 \<and> sh' ! 5 = 0"
    by (simp add: stride_def)
  with r show ?thesis by blast
qed

section \<open>Commands and batches\<close>




text \<open>
  C2. In the safe module a \<^verbatim>\<open>SET_ORIGIN\<close> record for a slave (index as the client
  interface issues it) is handled without error, sets the sync-error flag to false
  whatever it was, and latches the origin offset and the target pulses of that slave to
  the actual position just read; the other slaves, the trajectory and the axis tag of
  the slave are untouched. A \<^verbatim>\<open>MOVE_TO_MM\<close> record that follows it in the same drain is
  taken into the batch, also when the flag was set before.
\<close>

theorem C2_set_origin_clears_sync_error:
  assumes "0 \<le> slave_idx"
    and "nat slave_idx < length (motors ls)"
    and "nat slave_idx < length ins"
  shows "\<exists>ls'. handle_command Safe ins ls tc (slave_idx, SET_ORIGIN) = Inr (False, ls', tc)
     \<and> \<not> sync_error_detected ls'
     \<and> is_running ls' = is_running ls
     \<and> length (motors ls') = length (motors ls)
     \<and> motors ls' ! nat slave_idx
         = (motors ls ! nat slave_idx)
             \<lparr>target_pulse := read_actual_position (ins ! nat slave_idx),
              offset := read_actual_position (ins ! nat slave_idx)\<rparr>
     \<and> (\<forall>k. k \<noteq> nat slave_idx \<longrightarrow> motors ls' ! k = motors ls ! k)
     \<and> (\<forall>j mm q. drain Safe ins ls tc ((slave_idx, SET_ORIGIN) # (j, MOVE_TO_MM mm) # q)
           = drain Safe ins ls' (tc @ [(j, mm)]) q)"
proof -
  define p where "p = read_actual_position (ins ! nat slave_idx)"
  define ls' where
    "ls' = ls\<lparr>motors := (motors ls)[nat slave_idx := (motors ls ! nat slave_idx)
                            \<lparr>target_pulse := p, offset := p\<rparr>],
              sync_error_detected := False\<rparr>"
  from assms have "slave_idx < int (length (motors ls))" "slave_idx < int (length ins)"
    by linarith+
  with assms(1) have ix: "py_index (length (motors ls)) slave_idx = Inr (nat slave_idx)"
    "py_index (length ins) slave_idx = Inr (nat slave_idx)"
    by (simp_all add: py_index_nonneg)
  have h: "handle_command Safe ins ls tc (slave_idx, SET_ORIGIN) = Inr (False, ls', tc)"
    by (simp add: handle_command_def ix ls'_def p_def Let_def)
  have mv: "handle_command Safe ins ls' (tc) (j, MOVE_TO_MM mm) = Inr (False, ls', tc @ [(j, mm)])"
    for j mm
    by (simp add: handle_command_def ls'_def)
  have dr: "drain Safe ins ls tc ((slave_idx, SET_ORIGIN) # (j, MOVE_TO_MM mm) # q)
           = drain Safe ins ls' (tc @ [(j, mm)]) q" for j mm q
    by (simp add: h mv)
  have "\<not> sync_error_detected ls'" "is_running ls' = is_running ls"
    "length (motors ls') = length (motors ls)"
    "motors ls' ! nat slave_idx = (motors ls ! nat slave_idx)\<lparr>target_pulse := p, offset := p\<rparr>"
    "\<forall>k. k \<noteq> nat slave_idx \<longrightarrow> motors ls' ! k = motors ls ! k"
    using assms(2) by (simp_all add: ls'_def)
  with h dr show ?thesis unfolding p_def by blast
qed

theorem C2_set_origin_clears_sync_error_witness:
  "\<exists>ls'. handle_command Safe [\<lparr>statusword = 0x0027, position_actual = 12345\<rparr>]
            sync_error_state [] (0, SET_ORIGIN) = Inr (False, ls', [])
     \<and> sync_error_detected sync_error_state
     \<and> \<not> sync_error_detected ls'
     \<and> motors ls' ! nat 0 = initial_motor_state\<lparr>target_pulse := 12345, offset := 12345\<rparr>"
proof -
  have h1: "(0 :: int) \<le> 0" by simp
  have h2: "nat 0 < length (motors sync_error_state)"
    by (simp add: sync_error_state_def initial_loop_state_def)
  have h3: "nat 0 < length [\<lparr>statusword = 0x0027, position_actual = 12345\<rparr>]" by simp
  from C2_set_origin_clears_sync_error [OF h1 h2 h3, of "[]"]
  obtain ls' where
    "handle_command Safe [\<lparr>statusword = 0x0027, position_actual = 12345\<rparr>]
            sync_error_state [] (0, SET_ORIGIN) = Inr (False, ls', [])"
    "\<not> sync_error_detected ls'"
    "motors ls' ! nat 0
         = (motors sync_error_state ! nat 0)
             \<lparr>target_pulse := read_actual_position
                               ([\<lparr>statusword = 0x0027, position_actual = 12345\<rparr>] ! nat 0),
              offset := read_actual_position
                          ([\<lparr>statusword = 0x0027, position_actual = 12345\<rparr>] ! nat 0)\<rparr>"
    by blast
  moreover have "sync_error_detected sync_error_state"
    by (simp add: sync_error_state_def)
  moreover have "(motors sync_error_state ! nat 0)
             \<lparr>target_pulse := read_actual_position
                               ([\<lparr>statusword = 0x0027, position_actual = 12345\<rparr>] ! nat 0),
              offset := read_actual_position
                          ([\<lparr>statusword = 0x0027, position_actual = 12345\<rparr>] ! nat 0)\<rparr>
      = initial_motor_state\<lparr>target_pulse := 12345, offset := 12345\<rparr>"
    by (simp add: sync_error_state_def initial_loop_state_def read_actual_position_def)
  ultimately show ?thesis by auto
qed




end
